theory Spec2Isabelle
  imports Main "HOL-Library.Word"
begin

text \<open>
  A model of the instance layer of the Go bindings to the WebAssembly engine
  (\<open>wasmer/instance.go\<close>, \<open>wasmer/instance_helpers.go\<close>): the constructors of an
  \<open>Instance\<close>, the materialization of its imports, the walk over its export table, the
  wrapper of an exported function, and \<open>Close\<close>, \<open>Clean\<close> and the points used.  The
  engine is a state that every function takes and returns; a Go panic and a Go error
  are values.
\<close>

section \<open>Errors\<close>

text \<open>
  \<open>InstanceError message\<close> is \<open>NewInstanceError(message)\<close>,
  \<open>ExportedFunctionError functionName message\<close> is
  \<open>NewExportedFunctionError(functionName, message)\<close>, \<open>ErrorsNew\<close> is \<open>errors.New\<close>.
  \<open>ArityError functionName expected given\<close> is the error of an argument count
  that differs from the declared input arity (see \<open>validateGivenArguments\<close> below).
\<close>

datatype go_error =
    InstanceError string
  | ExportedFunctionError string string
  | ErrorsNew string
  | ArityError string nat nat

datatype go_panic = IndexOutOfRange | NilDereference

section \<open>Foreign data exchanged with the engine\<close>

text \<open>
  A foreign pointer is a natural number; Go's \<open>nil\<close> pointer is \<open>None\<close> of
  \<open>handle option\<close>.  \<open>cUint\<close> and \<open>cInt\<close> are 32-bit, \<open>uint64\<close> is 64-bit.
\<close>

type_synonym handle = nat
type_synonym byte = "8 word"
type_synonym cUint = "32 word"
type_synonym cInt = "32 word"
type_synonym uint32 = "32 word"
type_synonym uint64 = "64 word"

datatype cWasmerValueTag = WasmI32 | WasmI64 | WasmF32 | WasmF64

text \<open>A WebAssembly value as the engine sees it: its tag and its bits.\<close>

datatype cWasmerValueT = WasmValue cWasmerValueTag uint64

datatype cWasmerImportExportKind = cWasmFunction | cWasmGlobal | cWasmMemory | cWasmTable

text \<open>\<open>cNewWasmerImportT (namespace, name, function pointer)\<close>: one flattened import.\<close>

datatype cWasmerImportT = cNewWasmerImportT string string "handle option"

text \<open>
  One entry of an export table, as the engine answers about it: its kind, its name, what
  \<open>cWasmerExportToMemory\<close> yields (\<open>None\<close> when the status is not \<open>cWasmerOk\<close>), and
  what the helpers \<open>getExportedFunctionSignature\<close> and \<open>getExportedFunctionOutputArity\<close>
  return for it (their code is not among the sources, so their results are data here).
\<close>

record cWasmerExportT =
  export_kind :: cWasmerImportExportKind
  export_name :: string
  export_memory :: "handle option"
  export_signature :: "go_error + cWasmerValueTag list \<times> nat"
  export_outputs_arity :: "go_error + nat"

type_synonym cWasmerExportsT = "cWasmerExportT list"

section \<open>The engine\<close>

text \<open>Every primitive of the engine that the code invokes, with its arguments.\<close>

datatype engine_call =
    ImportFuncNew nat "cWasmerValueTag list option" cUint "cWasmerValueTag list option" cUint
  | ImportFuncDestroy handle
  | NewImportObjectFromImports "cWasmerImportT list option" cInt
  | Instantiate "byte list" cUint "cWasmerImportT list option" cInt
  | InstantiateWithMetering "byte list" cUint "cWasmerImportT list option" cInt uint64
      "uint32 list"
  | InstantiateWithMeteringAndImportObject "byte list" cUint "handle option" uint64
      "uint32 list"
  | InstanceExports "handle option"
  | ExportsDestroy
  | ExportsLen
  | ExportsGet nat
  | ExportKind nat
  | ExportName nat
  | ExportToFunc nat
  | ExportToMemory nat
  | InstanceCall "handle option" string "cWasmerValueT list"
  | InstanceDestroy handle
  | InstanceGetPointsUsed "handle option"
  | InstanceSetPointsUsed "handle option" uint64

text \<open>
  Modelled from the spec: the bindings \<open>cWasmer...\<close> through which the code reaches the
  engine are not among the sources.  Each is a step on an explicit engine state that
  logs the call and does what section 6 of the spec says of the primitive.
  \<open>calls\<close> is the log of
  the primitives invoked so far (oldest first).  \<open>next_handle\<close> is the next unused
  foreign address.  \<open>import_funcs\<close>, \<open>import_objects\<close> and \<open>instances\<close> are the live
  handles of each sort.  \<open>exports_of\<close> is the export table of each instance,
  \<open>points_used\<close> the metering counter of each metered instance, \<open>last_error\<close> what
  \<open>GetLastError()\<close> returns now (the string and the error of the retrieval, \<open>None\<close>
  for \<open>nil\<close>).  \<open>verdict\<close> is what the engine decides on an instantiation request:
  \<open>Inl detail\<close> to reject it, leaving \<open>detail\<close> as the last error, \<open>Inr table\<close> to
  accept it with that export table.  \<open>run\<close> is what a call of an exported function
  yields (\<open>None\<close> when the status is not \<open>cWasmerOk\<close>).
\<close>

record engine =
  calls :: "engine_call list"
  next_handle :: handle
  import_funcs :: "handle set"
  import_objects :: "handle set"
  instances :: "handle set"
  exports_of :: "handle \<Rightarrow> cWasmerExportsT"
  points_used :: "handle \<rightharpoonup> uint64"
  last_error :: "string \<times> go_error option"
  verdict :: "engine_call \<Rightarrow> (string \<times> go_error option) + cWasmerExportsT"
  run :: "handle option \<Rightarrow> string \<Rightarrow> cWasmerValueT list \<Rightarrow> cWasmerValueT list option"

definition log_call :: "engine_call \<Rightarrow> engine \<Rightarrow> engine" where
  "log_call c e = e\<lparr>calls := calls e @ [c]\<rparr>"

definition cWasmerImportFuncNew ::
  "nat \<Rightarrow> cWasmerValueTag list option \<Rightarrow> cUint \<Rightarrow> cWasmerValueTag list option \<Rightarrow> cUint
     \<Rightarrow> engine \<Rightarrow> handle option \<times> engine" where
  "cWasmerImportFuncNew func params params_len returns returns_len e =
     (let h = next_handle e
      in (Some h,
          (log_call (ImportFuncNew func params params_len returns returns_len) e)
            \<lparr>next_handle := Suc h, import_funcs := insert h (import_funcs e)\<rparr>))"

definition cWasmerImportFuncDestroy :: "handle \<Rightarrow> engine \<Rightarrow> engine" where
  "cWasmerImportFuncDestroy h e =
     (log_call (ImportFuncDestroy h) e)\<lparr>import_funcs := import_funcs e - {h}\<rparr>"

text \<open>
  The instantiate primitives share one behaviour: on \<open>Inr table\<close> a fresh instance
  handle is written through the out-pointer and the status is \<open>cWasmerOk\<close> (\<open>True\<close>);
  on \<open>Inl detail\<close> the out-pointer keeps its \<open>nil\<close> and the detail goes to the
  last-error slot.  A metered instance starts with no points used.
\<close>

definition instantiate :: "bool \<Rightarrow> engine_call \<Rightarrow> engine \<Rightarrow> (handle option \<times> bool) \<times> engine" where
  "instantiate metered c e =
     (let e1 = log_call c e
      in case verdict e c of
           Inl detail \<Rightarrow> ((None, False), e1\<lparr>last_error := detail\<rparr>)
         | Inr table \<Rightarrow>
             (let h = next_handle e
              in ((Some h, True),
                  e1\<lparr>next_handle := Suc h,
                     instances := insert h (instances e),
                     exports_of := (exports_of e)(h := table),
                     points_used :=
                       (if metered then (points_used e)(h \<mapsto> 0) else points_used e)\<rparr>)))"

definition cWasmerInstantiate ::
  "byte list \<Rightarrow> cUint \<Rightarrow> cWasmerImportT list option \<Rightarrow> cInt \<Rightarrow> engine
     \<Rightarrow> (handle option \<times> bool) \<times> engine" where
  "cWasmerInstantiate wasm_bytes wasm_bytes_length imports imports_length =
     instantiate False (Instantiate wasm_bytes wasm_bytes_length imports imports_length)"

definition cWasmerInstantiateWithMetering ::
  "byte list \<Rightarrow> cUint \<Rightarrow> cWasmerImportT list option \<Rightarrow> cInt \<Rightarrow> uint64 \<Rightarrow> uint32 list
     \<Rightarrow> engine \<Rightarrow> (handle option \<times> bool) \<times> engine" where
  "cWasmerInstantiateWithMetering wasm_bytes wasm_bytes_length imports imports_length
       gas_limit opcode_costs =
     instantiate True
       (InstantiateWithMetering wasm_bytes wasm_bytes_length imports imports_length
          gas_limit opcode_costs)"

definition cWasmerInstantiateWithMeteringAndImportObject ::
  "byte list \<Rightarrow> cUint \<Rightarrow> handle option \<Rightarrow> uint64 \<Rightarrow> uint32 list
     \<Rightarrow> engine \<Rightarrow> (handle option \<times> bool) \<times> engine" where
  "cWasmerInstantiateWithMeteringAndImportObject wasm_bytes wasm_bytes_length import_object
       gas_limit opcode_costs =
     instantiate True
       (InstantiateWithMeteringAndImportObject wasm_bytes wasm_bytes_length import_object
          gas_limit opcode_costs)"


definition cWasmerInstanceExports :: "handle option \<Rightarrow> engine \<Rightarrow> cWasmerExportsT \<times> engine" where
  "cWasmerInstanceExports c_instance e =
     ((case c_instance of None \<Rightarrow> [] | Some h \<Rightarrow> exports_of e h),
      log_call (InstanceExports c_instance) e)"

definition cWasmerExportsDestroy :: "cWasmerExportsT \<Rightarrow> engine \<Rightarrow> engine" where
  "cWasmerExportsDestroy wasmExports e = log_call ExportsDestroy e"

definition cWasmerExportsLen :: "cWasmerExportsT \<Rightarrow> engine \<Rightarrow> nat \<times> engine" where
  "cWasmerExportsLen wasmExports e = (length wasmExports, log_call ExportsLen e)"

text \<open>
  An export is handed out as its index in the table; the accessors below read
  the table at that index.
\<close>

definition cWasmerExportsGet :: "cWasmerExportsT \<Rightarrow> nat \<Rightarrow> engine \<Rightarrow> nat \<times> engine" where
  "cWasmerExportsGet wasmExports n e = (n, log_call (ExportsGet n) e)"

definition cWasmerExportKind ::
  "cWasmerExportsT \<Rightarrow> nat \<Rightarrow> engine \<Rightarrow> cWasmerImportExportKind \<times> engine" where
  "cWasmerExportKind wasmExports wasmExport e =
     (export_kind (wasmExports ! wasmExport), log_call (ExportKind wasmExport) e)"

definition cWasmerExportName :: "cWasmerExportsT \<Rightarrow> nat \<Rightarrow> engine \<Rightarrow> string \<times> engine" where
  "cWasmerExportName wasmExports wasmExport e =
     (export_name (wasmExports ! wasmExport), log_call (ExportName wasmExport) e)"

definition cWasmerExportToFunc :: "cWasmerExportsT \<Rightarrow> nat \<Rightarrow> engine \<Rightarrow> cWasmerExportT \<times> engine" where
  "cWasmerExportToFunc wasmExports wasmExport e =
     (wasmExports ! wasmExport, log_call (ExportToFunc wasmExport) e)"

definition cWasmerExportToMemory ::
  "cWasmerExportsT \<Rightarrow> nat \<Rightarrow> engine \<Rightarrow> (handle option \<times> bool) \<times> engine" where
  "cWasmerExportToMemory wasmExports wasmExport e =
     ((case export_memory (wasmExports ! wasmExport) of
         None \<Rightarrow> (None, False)
       | Some m \<Rightarrow> (Some m, True)),
      log_call (ExportToMemory wasmExport) e)"

definition cWasmerInstanceDestroy :: "handle \<Rightarrow> engine \<Rightarrow> engine" where
  "cWasmerInstanceDestroy h e =
     (log_call (InstanceDestroy h) e)\<lparr>instances := instances e - {h}\<rparr>"

text \<open>
  The points used are read and written through the engine.  On a handle without a
  metering counter a write changes nothing and a read yields 0.
\<close>

definition cWasmerInstanceGetPointsUsed :: "handle option \<Rightarrow> engine \<Rightarrow> uint64 \<times> engine" where
  "cWasmerInstanceGetPointsUsed c_instance e =
     ((case c_instance of
         None \<Rightarrow> 0
       | Some h \<Rightarrow> (case points_used e h of None \<Rightarrow> 0 | Some v \<Rightarrow> v)),
      log_call (InstanceGetPointsUsed c_instance) e)"

definition cWasmerInstanceSetPointsUsed :: "handle option \<Rightarrow> uint64 \<Rightarrow> engine \<Rightarrow> engine" where
  "cWasmerInstanceSetPointsUsed c_instance new_gas e =
     (log_call (InstanceSetPointsUsed c_instance new_gas) e)
       \<lparr>points_used :=
          (case c_instance of
             None \<Rightarrow> points_used e
           | Some h \<Rightarrow>
               (case points_used e h of
                  None \<Rightarrow> points_used e
                | Some v \<Rightarrow> (points_used e)(h \<mapsto> new_gas)))\<rparr>"

definition cWasmerInstanceCall ::
  "handle option \<Rightarrow> string \<Rightarrow> cWasmerValueT list \<Rightarrow> engine
     \<Rightarrow> (cWasmerValueT list \<times> bool) \<times> engine" where
  "cWasmerInstanceCall c_instance name params e =
     ((case run e c_instance name params of
         None \<Rightarrow> ([], False)
       | Some results \<Rightarrow> (results, True)),
      log_call (InstanceCall c_instance name params) e)"

text \<open>
  Modelled from the spec: \<open>GetLastError\<close> is not among the sources.  It returns the
  engine's last-error string, or an error when the string is unavailable.
\<close>

definition GetLastError :: "engine \<Rightarrow> string \<times> go_error option" where
  "GetLastError e = last_error e"

section \<open>Formatting\<close>

text \<open>
  \<open>fmt.Sprintf(format, a)\<close> with one string operand, for a format whose only verb is
  \<open>%s\<close>: the first \<open>%s\<close> is replaced by the operand, every other character is copied.
\<close>

fun Sprintf :: "string \<Rightarrow> string \<Rightarrow> string" where
  "Sprintf [] a = []"
| "Sprintf [c] a = [c]"
| "Sprintf (c # d # fmt) a =
     (if c = CHR ''%'' \<and> d = CHR ''s'' then a @ fmt
      else c # Sprintf (d # fmt) a)"

section \<open>The import registry\<close>

text \<open>
  Modelled from the spec: the declarations of \<open>ImportFunction\<close> and \<open>Imports\<close> and
  the methods \<open>NewImports\<close>, \<open>Count\<close> and \<open>Close\<close> are not among the sources.  An
  \<open>ImportFunction\<close> has the fields the code reads and writes.  \<open>Imports\<close> maps a
  namespace to a map from import name to \<open>ImportFunction\<close>; it is an association list,
  in the order in which \<open>range\<close> visits it.  The maps hold \<open>ImportFunction\<close> values,
  so the variable of a \<open>range\<close> loop is a copy of the map's element.  The foreign
  handles themselves live in the engine.
\<close>

record ImportFunction =
  cgoPointer :: nat
  importedFunctionPointer :: "handle option"
  wasmInputs :: "cWasmerValueTag list"
  wasmOutputs :: "cWasmerValueTag list"
  namespace :: string

type_synonym Imports = "(string \<times> (string \<times> ImportFunction) list) list"

definition NewImports :: Imports where
  "NewImports = []"

text \<open>
  Modelled from the spec: \<open>count()\<close> is the total number of registered import functions
  across all namespaces.
\<close>

fun Count :: "Imports \<Rightarrow> nat" where
  "Count [] = 0"
| "Count ((ns, namespacedImports) # rest) = length namespacedImports + Count rest"

text \<open>
  Modelled from the spec: \<open>close()\<close> releases all materialized foreign function handles
  owned by this registry, and is idempotent.  A function whose handle is \<open>nil\<close> has none
  to release, and a handle that is no longer live has been released already and is not
  released again.
\<close>

fun Close_namespace :: "(string \<times> ImportFunction) list \<Rightarrow> engine \<Rightarrow> engine" where
  "Close_namespace [] e = e"
| "Close_namespace ((importName, importFunction) # rest) e =
     Close_namespace rest
       (case importedFunctionPointer importFunction of
          None \<Rightarrow> e
        | Some h \<Rightarrow> if h \<in> import_funcs e then cWasmerImportFuncDestroy h e else e)"

fun Imports_Close :: "Imports \<Rightarrow> engine \<Rightarrow> engine" where
  "Imports_Close [] e = e"
| "Imports_Close ((ns, namespacedImports) # rest) e =
     Imports_Close rest (Close_namespace namespacedImports e)"

section \<open>generateWasmerImports\<close>

text \<open>
  The inner loop over one namespace.  It threads the engine, the array \<open>wasmImports\<close>
  and the index \<open>importFunctionNth\<close>.  The loop variable \<open>importFunction\<close> is a copy of
  the map's element: the assignment of the new handle to its \<open>importedFunctionPointer\<close>
  changes the copy (\<open>importFunction'\<close>), which the flattened record is then built from,
  and the registry stays as it was.  A signature pointer is \<open>nil\<close> when the arity is 0.
\<close>

fun generate_namespace ::
  "(string \<times> ImportFunction) list \<Rightarrow> cWasmerImportT list \<Rightarrow> nat \<Rightarrow> engine
     \<Rightarrow> (cWasmerImportT list \<times> nat) \<times> engine" where
  "generate_namespace [] wasmImports importFunctionNth e = ((wasmImports, importFunctionNth), e)"
| "generate_namespace ((importName, importFunction) # rest) wasmImports importFunctionNth e =
     (let wasmInputsArity = length (wasmInputs importFunction);
          wasmOutputsArity = length (wasmOutputs importFunction);
          importFunctionInputsCPointer =
            (if wasmInputsArity > 0 then Some (wasmInputs importFunction) else None);
          importFunctionOutputsCPointer =
            (if wasmOutputsArity > 0 then Some (wasmOutputs importFunction) else None);
          (p, e1) =
            cWasmerImportFuncNew (cgoPointer importFunction)
              importFunctionInputsCPointer (of_nat wasmInputsArity)
              importFunctionOutputsCPointer (of_nat wasmOutputsArity) e;
          importFunction' = importFunction\<lparr>importedFunctionPointer := p\<rparr>;
          importedFunction =
            cNewWasmerImportT (namespace importFunction') importName
              (importedFunctionPointer importFunction');
          wasmImports' = wasmImports[importFunctionNth := importedFunction]
      in generate_namespace rest wasmImports' (Suc importFunctionNth) e1)"

fun generate_imports ::
  "Imports \<Rightarrow> cWasmerImportT list \<Rightarrow> nat \<Rightarrow> engine
     \<Rightarrow> (cWasmerImportT list \<times> nat) \<times> engine" where
  "generate_imports [] wasmImports importFunctionNth e = ((wasmImports, importFunctionNth), e)"
| "generate_imports ((ns, namespacedImports) # rest) wasmImports importFunctionNth e =
     (let ((wasmImports', n), e1) =
            generate_namespace namespacedImports wasmImports importFunctionNth e
      in generate_imports rest wasmImports' n e1)"

text \<open>
  \<open>make([]cWasmerImportT, numberOfImports)\<close> is an array of zero values.  The result is
  the pointer to the array (\<open>nil\<close> when it is empty) and the count.
\<close>

definition zero_import :: cWasmerImportT where
  "zero_import = cNewWasmerImportT [] [] None"

definition generateWasmerImports ::
  "Imports \<Rightarrow> engine \<Rightarrow> (cWasmerImportT list option \<times> nat) \<times> engine" where
  "generateWasmerImports imports e =
     (let numberOfImports = Count imports;
          wasmImports = replicate numberOfImports zero_import;
          ((wasmImports', importFunctionNth), e1) =
            generate_imports imports wasmImports 0 e;
          wasmImportsCPointer = (if numberOfImports > 0 then Some wasmImports' else None)
      in ((wasmImportsCPointer, numberOfImports), e1))"

section \<open>Exported functions\<close>

text \<open>
  Modelled from the spec: the types \<open>Value\<close> and \<open>Memory\<close> and the functions \<open>void\<close>
  and \<open>newMemory\<close> are not among the sources.  A \<open>Value\<close> is a tagged WebAssembly
  value (floats as their bits); \<open>void()\<close> is the value of a function without result.
  \<open>newMemory\<close> wraps the engine's memory handle; the zero \<open>Memory\<close> wraps \<open>nil\<close>.
\<close>

datatype Value = void | I32 "32 word" | I64 "64 word" | F32 "32 word" | F64 "64 word"

datatype Memory = newMemory "handle option"

text \<open>
  The closure that \<open>createExportedFunctionWrapper\<close> returns is the record of the
  variables it captures; \<open>wrapper_call\<close> below is its body.  A Go result
  \<open>(x, err)\<close> of which exactly one component is set is a sum, \<open>Inl err\<close> or \<open>Inr x\<close>.
\<close>

record wrapper =
  w_c_instance :: "handle option"
  w_exportedFunctionName :: string
  w_wasmFunctionInputSignatures :: "cWasmerValueTag list"
  w_wasmFunctionInputsArity :: nat
  w_wasmFunctionOutputsArity :: nat

definition getExportedFunctionSignature ::
  "cWasmerExportT \<Rightarrow> string \<Rightarrow> go_error + cWasmerValueTag list \<times> nat" where
  "getExportedFunctionSignature wasmFunction exportedFunctionName = export_signature wasmFunction"

definition getExportedFunctionOutputArity :: "cWasmerExportT \<Rightarrow> string \<Rightarrow> go_error + nat" where
  "getExportedFunctionOutputArity wasmFunction exportedFunctionName =
     export_outputs_arity wasmFunction"

definition createExportedFunctionWrapper ::
  "handle option \<Rightarrow> cWasmerExportT \<Rightarrow> string \<Rightarrow> go_error + wrapper" where
  "createExportedFunctionWrapper c_instance wasmFunction exportedFunctionName =
     (case getExportedFunctionSignature wasmFunction exportedFunctionName of
        Inl err \<Rightarrow> Inl err
      | Inr (wasmFunctionInputSignatures, wasmFunctionInputsArity) \<Rightarrow>
          (case getExportedFunctionOutputArity wasmFunction exportedFunctionName of
             Inl err \<Rightarrow> Inl err
           | Inr wasmFunctionOutputsArity \<Rightarrow>
               Inr \<lparr>w_c_instance = c_instance,
                    w_exportedFunctionName = exportedFunctionName,
                    w_wasmFunctionInputSignatures = wasmFunctionInputSignatures,
                    w_wasmFunctionInputsArity = wasmFunctionInputsArity,
                    w_wasmFunctionOutputsArity = wasmFunctionOutputsArity\<rparr>))"

text \<open>
  Modelled from the spec: \<open>validateGivenArguments\<close> is not among the sources.  The
  argument count must exactly equal the declared input arity; a mismatch fails with an
  error identifying the function name and both counts.
\<close>

definition validateGivenArguments :: "string \<Rightarrow> 'a list \<Rightarrow> nat \<Rightarrow> go_error option" where
  "validateGivenArguments exportedFunctionName arguments wasmFunctionInputsArity =
     (if length arguments \<noteq> wasmFunctionInputsArity
      then Some (ArityError exportedFunctionName wasmFunctionInputsArity (length arguments))
      else None)"

text \<open>
  Modelled from the spec: \<open>callWasmFunction\<close> is not among the sources.  It calls the
  engine with the instance handle, the function reference and the coerced inputs.
\<close>

definition callWasmFunction ::
  "handle option \<Rightarrow> string \<Rightarrow> nat \<Rightarrow> nat \<Rightarrow> cWasmerValueT list \<Rightarrow> engine
     \<Rightarrow> (cWasmerValueT list \<times> bool) \<times> engine" where
  "callWasmFunction c_instance exportedFunctionName wasmFunctionInputsArity
       wasmFunctionOutputsArity wasmInputs' =
     cWasmerInstanceCall c_instance exportedFunctionName wasmInputs'"

text \<open>
  The two marshalling helpers, \<open>createWasmInputsFromArguments\<close> and
  \<open>convertWasmOutputToValue\<close>, are not among the sources either; the wrapper takes them
  as parameters.  The host arguments (\<open>interface{}\<close>) are of any type \<open>'a\<close>.
\<close>

record 'a marshalling =
  createWasmInputsFromArguments ::
    "'a list \<Rightarrow> nat \<Rightarrow> cWasmerValueTag list \<Rightarrow> string \<Rightarrow> go_error + cWasmerValueT list"
  convertWasmOutputToValue :: "nat \<Rightarrow> cWasmerValueT list \<Rightarrow> string \<Rightarrow> Value \<times> go_error option"

definition wrapper_call ::
  "'a marshalling \<Rightarrow> wrapper \<Rightarrow> 'a list \<Rightarrow> engine \<Rightarrow> (Value \<times> go_error option) \<times> engine" where
  "wrapper_call m w arguments e =
     (case validateGivenArguments (w_exportedFunctionName w) arguments
             (w_wasmFunctionInputsArity w) of
        Some err \<Rightarrow> ((void, Some err), e)
      | None \<Rightarrow>
          (case createWasmInputsFromArguments m arguments (w_wasmFunctionInputsArity w)
                  (w_wasmFunctionInputSignatures w) (w_exportedFunctionName w) of
             Inl err \<Rightarrow> ((void, Some err), e)
           | Inr wasmInputs' \<Rightarrow>
               (let ((wasmOutputs, callResult), e1) =
                      callWasmFunction (w_c_instance w) (w_exportedFunctionName w)
                        (w_wasmFunctionInputsArity w) (w_wasmFunctionOutputsArity w)
                        wasmInputs' e
                in if \<not> callResult
                   then ((void,
                          Some (ExportedFunctionError (w_exportedFunctionName w)
                                  ''Failed to call the `%s` exported function.'')),
                         e1)
                   else (convertWasmOutputToValue m (w_wasmFunctionOutputsArity w) wasmOutputs
                           (w_exportedFunctionName w),
                         e1))))"

section \<open>Walking the export table\<close>

text \<open>
  \<open>for nth := 0; nth < numberOfExports; nth++\<close>, with the loop variable as the
  argument \<open>n\<close>.  The memory loop carries \<open>memory\<close> and \<open>hasMemory\<close> and stops at the
  first memory export that the engine fails to hand out; its error result
  \<open>(emptyMemory, false, err)\<close> is \<open>Inl err\<close>.
\<close>

function retrieveExportedMemory_loop ::
  "cWasmerExportsT \<Rightarrow> nat \<Rightarrow> nat \<Rightarrow> Memory \<Rightarrow> bool \<Rightarrow> engine
     \<Rightarrow> (go_error + Memory \<times> bool) \<times> engine" where
  "retrieveExportedMemory_loop wasmExports numberOfExports n memory hasMemory e =
     (if n < numberOfExports then
        (let (wasmExport, e1) = cWasmerExportsGet wasmExports n e;
             (wasmExportKind, e2) = cWasmerExportKind wasmExports wasmExport e1
         in if wasmExportKind = cWasmMemory then
              (let ((wasmMemory, status), e3) = cWasmerExportToMemory wasmExports wasmExport e2
               in if \<not> status then
                    (Inl (InstanceError ''Failed to extract the exported memory.''), e3)
                  else retrieveExportedMemory_loop wasmExports numberOfExports (Suc n)
                         (newMemory wasmMemory) True e3)
            else retrieveExportedMemory_loop wasmExports numberOfExports (Suc n)
                   memory hasMemory e2)
      else (Inr (memory, hasMemory), e))"
  by pat_completeness auto
termination
  by (relation "measure (\<lambda>(wasmExports, numberOfExports, n, memory, hasMemory, e).
                   numberOfExports - n)") auto

declare retrieveExportedMemory_loop.simps [simp del]

definition retrieveExportedMemory ::
  "cWasmerExportsT \<Rightarrow> engine \<Rightarrow> (go_error + Memory \<times> bool) \<times> engine" where
  "retrieveExportedMemory wasmExports e =
     (let (numberOfExports, e1) = cWasmerExportsLen wasmExports e
      in retrieveExportedMemory_loop wasmExports numberOfExports 0 (newMemory None) False e1)"

text \<open>
  The function loop carries the map \<open>exports\<close>; an export that is not a function is
  skipped, and the first wrapper that cannot be built ends the loop with its error
  (\<open>Inl err\<close> for \<open>(nil, err)\<close>).  \<open>cGoStringN\<close> of the name bytes is the name.
\<close>

function retrieveExportedFunctions_loop ::
  "handle option \<Rightarrow> cWasmerExportsT \<Rightarrow> nat \<Rightarrow> nat \<Rightarrow> (string \<rightharpoonup> wrapper) \<Rightarrow> engine
     \<Rightarrow> (go_error + (string \<rightharpoonup> wrapper)) \<times> engine" where
  "retrieveExportedFunctions_loop c_instance wasmExports numberOfExports n exports e =
     (if n < numberOfExports then
        (let (wasmExport, e1) = cWasmerExportsGet wasmExports n e;
             (wasmExportKind, e2) = cWasmerExportKind wasmExports wasmExport e1
         in if wasmExportKind \<noteq> cWasmFunction then
              retrieveExportedFunctions_loop c_instance wasmExports numberOfExports (Suc n)
                exports e2
            else
              (let (wasmExportName, e3) = cWasmerExportName wasmExports wasmExport e2;
                   (wasmFunction, e4) = cWasmerExportToFunc wasmExports wasmExport e3;
                   exportedFunctionName = wasmExportName
               in case createExportedFunctionWrapper c_instance wasmFunction
                         exportedFunctionName of
                    Inl err \<Rightarrow> (Inl err, e4)
                  | Inr wrappedWasmFunction \<Rightarrow>
                      retrieveExportedFunctions_loop c_instance wasmExports numberOfExports
                        (Suc n) (exports(exportedFunctionName \<mapsto> wrappedWasmFunction)) e4))
      else (Inr exports, e))"
  by pat_completeness auto
termination
  by (relation "measure (\<lambda>(c_instance, wasmExports, numberOfExports, n, exports, e).
                   numberOfExports - n)") auto

declare retrieveExportedFunctions_loop.simps [simp del]

definition retrieveExportedFunctions ::
  "handle option \<Rightarrow> cWasmerExportsT \<Rightarrow> engine
     \<Rightarrow> (go_error + (string \<rightharpoonup> wrapper)) \<times> engine" where
  "retrieveExportedFunctions c_instance wasmExports e =
     (let exports = Map.empty;
          (numberOfExports, e1) = cWasmerExportsLen wasmExports e
      in retrieveExportedFunctions_loop c_instance wasmExports numberOfExports 0 exports e1)"

section \<open>Instances\<close>

text \<open>
  A pointer field is an option.  \<open>Exports\<close> is \<open>nil\<close> (\<open>None\<close>) or a map from names
  to wrappers.
\<close>

record ImportObject =
  "imports" :: "Imports option"
  c_import_object :: "handle option"

record Instance =
  "instance" :: "handle option"
  "imports" :: "Imports option"
  Exports :: "(string \<rightharpoonup> wrapper) option"
  Memory :: "Memory option"

text \<open>\<open>defer cWasmerExportsDestroy(wasmExports)\<close> runs on every return.\<close>

definition newInstanceWithImports ::
  "handle option \<Rightarrow> Imports option \<Rightarrow> engine \<Rightarrow> (Instance \<times> go_error option) \<times> engine" where
  "newInstanceWithImports c_instance imports' e =
     (let emptyInstance = \<lparr>instance = None, imports = None, Exports = None, Memory = None\<rparr>;
          (wasmExports, e1) = cWasmerInstanceExports c_instance e;
          (r, e2) = retrieveExportedFunctions c_instance wasmExports e1
      in case r of
           Inl err \<Rightarrow> ((emptyInstance, Some err), cWasmerExportsDestroy wasmExports e2)
         | Inr exports \<Rightarrow>
             (let (r', e3) = retrieveExportedMemory wasmExports e2
              in case r' of
                   Inl err \<Rightarrow> ((emptyInstance, Some err), cWasmerExportsDestroy wasmExports e3)
                 | Inr (memory, hasMemory) \<Rightarrow>
                     if hasMemory = False then
                       ((\<lparr>instance = c_instance, imports = imports', Exports = Some exports,
                           Memory = None\<rparr>, None),
                        cWasmerExportsDestroy wasmExports e3)
                     else
                       ((\<lparr>instance = c_instance, imports = imports', Exports = Some exports,
                           Memory = Some memory\<rparr>, None),
                        cWasmerExportsDestroy wasmExports e3)))"

text \<open>
  The constructors.  \<open>&bytes[0]\<close> panics on an empty slice, after the imports have
  been materialized; a \<open>nil\<close> registry or import object panics where it is first
  dereferenced.  A panic is \<open>Inl\<close>, a returned pair \<open>(Instance, error)\<close> is \<open>Inr\<close>.
\<close>

definition NewInstanceWithImports ::
  "byte list \<Rightarrow> Imports option \<Rightarrow> engine
     \<Rightarrow> (go_panic + Instance \<times> go_error option) \<times> engine" where
  "NewInstanceWithImports bytes imports' e =
     (case imports' of
        None \<Rightarrow> (Inl NilDereference, e)
      | Some registry \<Rightarrow>
          (let ((wasmImportsCPointer, numberOfImports), e1) =
                 generateWasmerImports registry e
           in if bytes = [] then (Inl IndexOutOfRange, e1)
              else
                (let ((c_instance, compileResult), e2) =
                       cWasmerInstantiate bytes (of_nat (length bytes))
                         wasmImportsCPointer (of_nat numberOfImports) e1
                 in if \<not> compileResult then
                      (let (lastError, err) = GetLastError e2;
                       errorMessage = ''Failed to instantiate the module:\<newline>    %s'';
                       errorMessage' =
                         (if err \<noteq> None then Sprintf errorMessage ''(unknown details)''
                          else Sprintf errorMessage lastError);
                       emptyInstance =
                         \<lparr>instance = None, imports = None, Exports = None, Memory = None\<rparr>
                   in (Inr (emptyInstance, Some (InstanceError errorMessage')), e2))
                    else
                      (let (r, e3) = newInstanceWithImports c_instance (Some registry) e2
                       in (Inr r, e3)))))"

definition NewInstance ::
  "byte list \<Rightarrow> engine \<Rightarrow> (go_panic + Instance \<times> go_error option) \<times> engine" where
  "NewInstance bytes e = NewInstanceWithImports bytes (Some NewImports) e"

definition NewMeteredInstanceWithImports ::
  "byte list \<Rightarrow> Imports option \<Rightarrow> uint64 \<Rightarrow> uint32 list \<Rightarrow> engine
     \<Rightarrow> (go_panic + Instance \<times> go_error option) \<times> engine" where
  "NewMeteredInstanceWithImports bytes imports' gasLimit opcode_costs e =
     (case imports' of
        None \<Rightarrow> (Inl NilDereference, e)
      | Some registry \<Rightarrow>
          (let ((wasmImportsCPointer, numberOfImports), e1) =
                 generateWasmerImports registry e
           in if bytes = [] then (Inl IndexOutOfRange, e1)
              else
                (let ((c_instance, compileResult), e2) =
                       cWasmerInstantiateWithMetering bytes (of_nat (length bytes))
                         wasmImportsCPointer (of_nat numberOfImports) gasLimit opcode_costs e1
                 in if \<not> compileResult then
                      (let (lastError, err) = GetLastError e2;
                       errorMessage = ''Failed to instantiate the module:\<newline>    %s'';
                       errorMessage' =
                         (if err \<noteq> None then Sprintf errorMessage ''(unknown details)''
                          else Sprintf errorMessage lastError);
                       emptyInstance =
                         \<lparr>instance = None, imports = None, Exports = None, Memory = None\<rparr>
                   in (Inr (emptyInstance, Some (InstanceError errorMessage')), e2))
                    else
                      (let (r, e3) = newInstanceWithImports c_instance (Some registry) e2
                       in (Inr r, e3)))))"

definition NewMeteredInstanceWithImportObject ::
  "byte list \<Rightarrow> ImportObject option \<Rightarrow> uint64 \<Rightarrow> uint32 list \<Rightarrow> engine
     \<Rightarrow> (go_panic + Instance \<times> go_error option) \<times> engine" where
  "NewMeteredInstanceWithImportObject bytes importObject gasLimit opcode_costs e =
     (if bytes = [] then (Inl IndexOutOfRange, e)
      else
        (case importObject of
           None \<Rightarrow> (Inl NilDereference, e)
         | Some object \<Rightarrow>
             (let ((c_instance, compileResult), e2) =
                    cWasmerInstantiateWithMeteringAndImportObject bytes (of_nat (length bytes))
                      (c_import_object object) gasLimit opcode_costs e
              in if \<not> compileResult then
                   (let (lastError, err) = GetLastError e2;
                       errorMessage = ''Failed to instantiate the module:\<newline>    %s'';
                       errorMessage' =
                         (if err \<noteq> None then Sprintf errorMessage ''(unknown details)''
                          else Sprintf errorMessage lastError);
                       emptyInstance =
                         \<lparr>instance = None, imports = None, Exports = None, Memory = None\<rparr>
                   in (Inr (emptyInstance, Some (InstanceError errorMessage')), e2))
                 else
                   (let (r, e3) =
                          newInstanceWithImports c_instance (ImportObject.imports object) e2
                    in (Inr r, e3)))))"


section \<open>Methods of an instance\<close>

definition HasMemory :: "Instance \<Rightarrow> bool" where
  "HasMemory i = (None \<noteq> Memory i)"

definition Close :: "Instance \<Rightarrow> engine \<Rightarrow> engine" where
  "Close i e =
     (let e1 = (case imports i of None \<Rightarrow> e | Some registry \<Rightarrow> Imports_Close registry e)
      in case instance i of None \<Rightarrow> e1 | Some h \<Rightarrow> cWasmerInstanceDestroy h e1)"

definition Clean :: "Instance \<Rightarrow> engine \<Rightarrow> engine" where
  "Clean i e = (case instance i of None \<Rightarrow> e | Some h \<Rightarrow> cWasmerInstanceDestroy h e)"

definition GetPointsUsed :: "Instance \<Rightarrow> engine \<Rightarrow> uint64 \<times> engine" where
  "GetPointsUsed i e = cWasmerInstanceGetPointsUsed (instance i) e"

definition SetPointsUsed :: "Instance \<Rightarrow> uint64 \<Rightarrow> engine \<Rightarrow> engine" where
  "SetPointsUsed i points e = cWasmerInstanceSetPointsUsed (instance i) points e"

section \<open>Example inputs\<close>

text \<open>
  An engine that has not been called yet, with a given verdict on instantiation
  requests.
\<close>

definition quiet_engine ::
  "(engine_call \<Rightarrow> (string \<times> go_error option) + cWasmerExportsT) \<Rightarrow> engine" where
  "quiet_engine v =
     \<lparr>calls = [], next_handle = 0, import_funcs = {}, import_objects = {}, instances = {},
      exports_of = (\<lambda>h. []), points_used = Map.empty, last_error = ([], None),
      verdict = v, run = (\<lambda>h name params. None)\<rparr>"

text \<open>The instance that the constructors return alongside an error.\<close>

definition is_empty_instance :: "Instance \<Rightarrow> bool" where
  "is_empty_instance i =
     (instance i = None \<and> imports i = None \<and> Exports i = None \<and> Memory i = None)"

text \<open>A registry with one import, \<open>env.sum\<close>; no handle is stored on it.\<close>

definition sum_import :: ImportFunction where
  "sum_import =
     \<lparr>cgoPointer = 7, importedFunctionPointer = None,
      wasmInputs = [WasmI32, WasmI32], wasmOutputs = [WasmI32], namespace = ''env''\<rparr>"

definition env_imports :: Imports where
  "env_imports = [(''env'', [(''sum'', sum_import)])]"

text \<open>
  The opcode-cost table has \<open>OPCODE_COUNT\<close> entries; here every opcode costs 1.  The
  smallest module is the magic number and the version, with no exports.
\<close>

definition OPCODE_COUNT :: nat where
  "OPCODE_COUNT = 410"

definition unit_costs :: "uint32 list" where
  "unit_costs = replicate OPCODE_COUNT 1"

definition empty_module :: "byte list" where
  "empty_module = [0x00, 0x61, 0x73, 0x6D, 0x01, 0x00, 0x00, 0x00]"

text \<open>An engine that rejects every module.\<close>

definition rejecting_engine :: engine where
  "rejecting_engine = quiet_engine (\<lambda>c. Inl (''bad magic'', None))"

text \<open>The memory exports of a table, in the table's order.\<close>

definition memory_exports :: "cWasmerExportsT \<Rightarrow> cWasmerExportsT" where
  "memory_exports wasmExports = filter (\<lambda>x. export_kind x = cWasmMemory) wasmExports"

text \<open>
  A function export \<open>(i32, i32) -> i32\<close> and a memory export; a table with one function
  and two memories; an engine that holds one instance, handle 0, with a given table.
\<close>

definition function_export :: "string \<Rightarrow> cWasmerExportT" where
  "function_export name =
     \<lparr>export_kind = cWasmFunction, export_name = name, export_memory = None,
      export_signature = Inr ([WasmI32, WasmI32], 2), export_outputs_arity = Inr 1\<rparr>"

definition memory_export :: "string \<Rightarrow> handle option \<Rightarrow> cWasmerExportT" where
  "memory_export name m =
     \<lparr>export_kind = cWasmMemory, export_name = name, export_memory = m,
      export_signature = Inl (ErrorsNew []), export_outputs_arity = Inl (ErrorsNew [])\<rparr>"

definition two_memories :: cWasmerExportsT where
  "two_memories =
     [function_export ''add'', memory_export ''memory'' (Some 100),
      memory_export ''other'' (Some 101)]"

definition engine_with_instance :: "cWasmerExportsT \<Rightarrow> engine" where
  "engine_with_instance table =
     (quiet_engine (\<lambda>c. Inr table))
       \<lparr>next_handle := 1, instances := {0}, exports_of := (\<lambda>h. [])(0 := table)\<rparr>"

text \<open>
  Reading a log: \<open>visited\<close> is the sequence of indices at which the export table was
  read (\<open>cWasmerExportsGet\<close>), \<open>retrievals\<close> the number of times a table was retrieved
  (\<open>cWasmerInstanceExports\<close>).  \<open>functions_walk\<close> and \<open>memory_walk\<close> are the calls of
  one complete pass of \<open>retrieveExportedFunctions\<close> and of \<open>retrieveExportedMemory\<close>
  over a table.
\<close>

fun visited :: "engine_call list \<Rightarrow> nat list" where
  "visited [] = []"
| "visited (ExportsGet n # cs) = n # visited cs"
| "visited (c # cs) = visited cs"

fun retrievals :: "engine_call list \<Rightarrow> nat" where
  "retrievals [] = 0"
| "retrievals (InstanceExports c_instance # cs) = Suc (retrievals cs)"
| "retrievals (c # cs) = retrievals cs"

definition functions_walk_at :: "cWasmerExportsT \<Rightarrow> nat \<Rightarrow> engine_call list" where
  "functions_walk_at wasmExports n =
     ExportsGet n # ExportKind n #
       (if export_kind (wasmExports ! n) = cWasmFunction then [ExportName n, ExportToFunc n]
        else [])"

definition memory_walk_at :: "cWasmerExportsT \<Rightarrow> nat \<Rightarrow> engine_call list" where
  "memory_walk_at wasmExports n =
     ExportsGet n # ExportKind n #
       (if export_kind (wasmExports ! n) = cWasmMemory then [ExportToMemory n] else [])"

definition functions_walk :: "cWasmerExportsT \<Rightarrow> engine_call list" where
  "functions_walk wasmExports =
     ExportsLen # concat (map (functions_walk_at wasmExports) [0..<length wasmExports])"

definition memory_walk :: "cWasmerExportsT \<Rightarrow> engine_call list" where
  "memory_walk wasmExports =
     ExportsLen # concat (map (memory_walk_at wasmExports) [0..<length wasmExports])"

text \<open>Marshalling helpers that accept everything, for a wrapper over host numbers.\<close>

definition no_marshalling :: "nat marshalling" where
  "no_marshalling =
     \<lparr>createWasmInputsFromArguments = (\<lambda>arguments arity signatures name. Inr []),
      convertWasmOutputToValue = (\<lambda>arity outputs name. (void, None))\<rparr>"

text \<open>
  An instance is metered in an engine state when the engine keeps a metering counter
  for its handle.
\<close>

definition is_metered :: "engine \<Rightarrow> Instance \<Rightarrow> bool" where
  "is_metered e i = (case instance i of None \<Rightarrow> False | Some h \<Rightarrow> points_used e h \<noteq> None)"

text \<open>\<open>only_calls e e'\<close>: the engine state \<open>e'\<close> differs from \<open>e\<close> in its log only.\<close>

definition only_calls :: "engine \<Rightarrow> engine \<Rightarrow> bool" where
  "only_calls e e' = (\<exists>cs. e' = e\<lparr>calls := cs\<rparr>)"

text \<open>An engine that accepts every module, with a given export table.\<close>

definition accepting_engine :: "cWasmerExportsT \<Rightarrow> engine" where
  "accepting_engine table = quiet_engine (\<lambda>c. Inr table)"

text \<open>
  Reading a registry: \<open>import_functions\<close> are its import functions in the order of
  iteration, \<open>new_call\<close> the \<open>cWasmerImportFuncNew\<close> call that materialization issues for
  one of them, \<open>new_record named h\<close> the flattened record of one of them with the handle
  \<open>h\<close>, and \<open>new_records fs h\<close> the records of a run of them with the handles \<open>h\<close>,
  \<open>h + 1\<close>, and so on.  \<open>stored_handles\<close> are the handles stored on the registry's
  import functions and \<open>released_handles\<close> those of them that are not \<open>nil\<close>, the ones
  that \<open>Imports_Close\<close> may release.
\<close>

definition import_functions :: "Imports \<Rightarrow> (string \<times> ImportFunction) list" where
  "import_functions registry = concat (map snd registry)"

definition new_call :: "string \<times> ImportFunction \<Rightarrow> engine_call" where
  "new_call named =
     (let importFunction = snd named
      in ImportFuncNew (cgoPointer importFunction)
           (if length (wasmInputs importFunction) > 0 then Some (wasmInputs importFunction)
            else None)
           (of_nat (length (wasmInputs importFunction)))
           (if length (wasmOutputs importFunction) > 0 then Some (wasmOutputs importFunction)
            else None)
           (of_nat (length (wasmOutputs importFunction))))"

definition new_record :: "string \<times> ImportFunction \<Rightarrow> handle \<Rightarrow> cWasmerImportT" where
  "new_record named h = cNewWasmerImportT (namespace (snd named)) (fst named) (Some h)"

fun new_records :: "(string \<times> ImportFunction) list \<Rightarrow> handle \<Rightarrow> cWasmerImportT list" where
  "new_records [] h = []"
| "new_records (named # fs) h = new_record named h # new_records fs (Suc h)"

definition stored_handles :: "Imports \<Rightarrow> handle option list" where
  "stored_handles registry =
     map (\<lambda>named. importedFunctionPointer (snd named)) (import_functions registry)"

fun some_handles :: "handle option list \<Rightarrow> handle list" where
  "some_handles [] = []"
| "some_handles (None # hs) = some_handles hs"
| "some_handles (Some h # hs) = h # some_handles hs"

definition released_handles :: "Imports \<Rightarrow> handle list" where
  "released_handles registry = some_handles (stored_handles registry)"

text \<open>
  Reading an export table: \<open>function_exports\<close> are its function exports in the table's
  order, and \<open>callable_map c_instance wasmExports exports\<close> is the map \<open>exports\<close> after
  the wrapper of each function export has been stored under the export's name, in the
  table's order (a later export of the same name replaces an earlier one).
\<close>

definition function_exports :: "cWasmerExportsT \<Rightarrow> cWasmerExportsT" where
  "function_exports wasmExports = filter (\<lambda>x. export_kind x = cWasmFunction) wasmExports"

fun callable_map ::
  "handle option \<Rightarrow> cWasmerExportsT \<Rightarrow> (string \<rightharpoonup> wrapper) \<Rightarrow> (string \<rightharpoonup> wrapper)" where
  "callable_map c_instance [] exports = exports"
| "callable_map c_instance (x # xs) exports =
     callable_map c_instance xs
       (if export_kind x = cWasmFunction then
          (case createExportedFunctionWrapper c_instance x (export_name x) of
             Inl err \<Rightarrow> exports
           | Inr w \<Rightarrow> exports(export_name x \<mapsto> w))
        else exports)"

text \<open>
  The engine that rejects every module, after one and after two materializations of
  \<open>env_imports\<close>.
\<close>

definition engine_once :: engine where
  "engine_once =
     rejecting_engine
       \<lparr>calls := [ImportFuncNew 7 (Some [WasmI32, WasmI32]) 2 (Some [WasmI32]) 1],
        next_handle := 1, import_funcs := {0}\<rparr>"

definition engine_twice :: engine where
  "engine_twice =
     rejecting_engine
       \<lparr>calls := [ImportFuncNew 7 (Some [WasmI32, WasmI32]) 2 (Some [WasmI32]) 1,
                  ImportFuncNew 7 (Some [WasmI32, WasmI32]) 2 (Some [WasmI32]) 1],
        next_handle := 2, import_funcs := {0, 1}\<rparr>"





definition plain_instance :: Instance where
  "plain_instance =
     \<lparr>instance = Some 0, imports = Some NewImports, Exports = Some Map.empty, Memory = None\<rparr>"

definition engine_with_plain_instance :: engine where
  "engine_with_plain_instance =
     (accepting_engine [])
       \<lparr>calls := [Instantiate empty_module 8 None 0, InstanceExports (Some 0), ExportsLen, ExportsLen,
                  ExportsDestroy],
        next_handle := 1, instances := {0}\<rparr>"

section \<open>The log and the other fields of the engine\<close>

lemma calls_log_call [simp]: "calls (log_call c e) = calls e @ [c]"
  by (simp add: log_call_def)

lemma log_call_keeps [simp]:
  "next_handle (log_call c e) = next_handle e"
  "import_funcs (log_call c e) = import_funcs e"
  "import_objects (log_call c e) = import_objects e"
  "instances (log_call c e) = instances e"
  "exports_of (log_call c e) = exports_of e"
  "points_used (log_call c e) = points_used e"
  "last_error (log_call c e) = last_error e"
  "verdict (log_call c e) = verdict e"
  "run (log_call c e) = run e"
  by (simp_all add: log_call_def)

section \<open>Materialization of the imports\<close>

lemma Count_import_functions: "Count registry = length (import_functions registry)"
  by (induction registry rule: Count.induct) (simp_all add: import_functions_def)

lemma new_records_append:
  "new_records (fs @ gs) h = new_records fs h @ new_records gs (h + length fs)"
  by (induction fs arbitrary: h) simp_all

lemma length_new_records [simp]: "length (new_records fs h) = length fs"
  by (induction fs arbitrary: h) simp_all

lemma generate_namespace_effect:
  "generate_namespace fs arr n e = ((arr', n'), e') \<Longrightarrow>
   n + length fs \<le> length arr \<Longrightarrow>
   n' = n + length fs \<and>
   calls e' = calls e @ map new_call fs \<and>
   next_handle e' = next_handle e + length fs \<and>
   import_funcs e' = import_funcs e \<union> {next_handle e..<next_handle e + length fs} \<and>
   arr' = take n arr @ new_records fs (next_handle e) @ drop (n + length fs) arr"
proof (induction fs arbitrary: arr n e)
  case Nil
  then show ?case by simp
next
  case (Cons a fs)
  obtain importName importFunction where a: "a = (importName, importFunction)"
    by (cases a)
  define e1 where "e1 = snd (cWasmerImportFuncNew (cgoPointer importFunction)
     (if length (wasmInputs importFunction) > 0 then Some (wasmInputs importFunction) else None)
     (of_nat (length (wasmInputs importFunction)))
     (if length (wasmOutputs importFunction) > 0 then Some (wasmOutputs importFunction) else None)
     (of_nat (length (wasmOutputs importFunction))) e)"
  define arr1 where "arr1 = arr[n := new_record a (next_handle e)]"
  from Cons.prems(1) have
    r: "generate_namespace fs arr1 (Suc n) e1 = ((arr', n'), e')"
    by (simp add: a e1_def arr1_def new_record_def Let_def cWasmerImportFuncNew_def
          split: prod.splits)
  have e1: "calls e1 = calls e @ [new_call a]" "next_handle e1 = Suc (next_handle e)"
    "import_funcs e1 = insert (next_handle e) (import_funcs e)"
    by (simp_all add: e1_def cWasmerImportFuncNew_def Let_def new_call_def log_call_def a)
  from Cons.prems(2) have lt: "n < length arr" and le: "Suc n + length fs \<le> length arr1"
    by (simp_all add: arr1_def)
  have arr1: "arr1 = take n arr @ new_record a (next_handle e) # drop (Suc n) arr"
    unfolding arr1_def using lt by (rule upd_conv_take_nth_drop)
  have t: "take (Suc n) arr1 = take n arr @ [new_record a (next_handle e)]"
    using lt by (simp add: arr1)
  have d: "drop (Suc (n + length fs)) arr1 = drop (Suc (n + length fs)) arr"
    using lt by (simp add: arr1_def)
  have s: "{next_handle e..<next_handle e + length (a # fs)} =
             insert (next_handle e) {Suc (next_handle e)..<Suc (next_handle e) + length fs}"
    by auto
  from Cons.IH [OF r le] show ?case
    unfolding s by (simp add: e1 t d)
qed

lemma generate_namespace_length:
  "generate_namespace fs arr n e = ((arr', n'), e') \<Longrightarrow> length arr' = length arr"
proof (induction fs arbitrary: arr n e)
  case Nil
  then show ?case by simp
next
  case (Cons a fs)
  obtain importName importFunction where a: "a = (importName, importFunction)"
    by (cases a)
  from Cons.prems obtain arr1 e1 where
    r: "generate_namespace fs arr1 (Suc n) e1 = ((arr', n'), e')"
    and "length arr1 = length arr"
    by (auto simp add: a Let_def cWasmerImportFuncNew_def split: prod.splits)
  with Cons.IH [OF r] show ?case by simp
qed

lemma generate_imports_effect:
  "generate_imports registry arr n e = ((arr', n'), e') \<Longrightarrow>
   n + Count registry \<le> length arr \<Longrightarrow>
   n' = n + Count registry \<and>
   calls e' = calls e @ map new_call (import_functions registry) \<and>
   next_handle e' = next_handle e + Count registry \<and>
   import_funcs e' = import_funcs e \<union> {next_handle e..<next_handle e + Count registry} \<and>
   arr' = take n arr @ new_records (import_functions registry) (next_handle e) @
            drop (n + Count registry) arr"
proof (induction registry arbitrary: arr n e)
  case Nil
  then show ?case by (simp add: import_functions_def)
next
  case (Cons a registry)
  obtain ns fs where a: "a = (ns, fs)" by (cases a)
  from Cons.prems(1) obtain arr1 n1 e1 where
    f: "generate_namespace fs arr n e = ((arr1, n1), e1)"
    and r: "generate_imports registry arr1 n1 e1 = ((arr', n'), e')"
    by (auto simp add: a split: prod.splits)
  from Cons.prems(2) have le: "n + length fs \<le> length arr" by (simp add: a)
  note F = generate_namespace_effect [OF f le]
  note L = generate_namespace_length [OF f]
  from F have n1: "n1 = n + length fs" by simp
  from Cons.prems(2) L have le1: "n1 + Count registry \<le> length arr1"
    by (simp add: a n1)
  note R = Cons.IH [OF r le1]
  have t: "take n1 arr1 = take n arr @ new_records fs (next_handle e)"
    using le F by (simp add: n1)
  have d: "drop (n1 + Count registry) arr1 = drop (n + (length fs + Count registry)) arr"
    using le F by (simp add: n1 ac_simps)
  have v: "{next_handle e..<next_handle e + (length fs + Count registry)} =
             {next_handle e..<next_handle e + length fs} \<union>
             {next_handle e + length fs..<next_handle e + length fs + Count registry}"
    by auto
  from F have e1: "calls e1 = calls e @ map new_call fs"
    "next_handle e1 = next_handle e + length fs"
    "import_funcs e1 = import_funcs e \<union> {next_handle e..<next_handle e + length fs}"
    by simp_all
  from R have "arr' = take n1 arr1 @
      new_records (import_functions registry) (next_handle e1) @ drop (n1 + Count registry) arr1"
    by simp
  then have arr': "arr' = take n arr @ new_records fs (next_handle e) @
      new_records (import_functions registry) (next_handle e + length fs) @
      drop (n + (length fs + Count registry)) arr"
    by (simp only: t d e1 append_assoc)
  from R have "n' = n1 + Count registry"
    "calls e' = calls e1 @ map new_call (import_functions registry)"
    "next_handle e' = next_handle e1 + Count registry"
    "import_funcs e' = import_funcs e1 \<union> {next_handle e1..<next_handle e1 + Count registry}"
    by simp_all
  with arr' show ?case
    by (simp add: a n1 e1 import_functions_def new_records_append v Un_assoc)
qed

lemma generateWasmerImports_effect:
  assumes "generateWasmerImports registry e = ((p, n), e')"
  shows "n = Count registry \<and>
         calls e' = calls e @ map new_call (import_functions registry) \<and>
         next_handle e' = next_handle e + Count registry \<and>
         import_funcs e' = import_funcs e \<union> {next_handle e..<next_handle e + Count registry} \<and>
         p = (if Count registry > 0
              then Some (new_records (import_functions registry) (next_handle e))
              else None)"
proof -
  obtain arr' n' e'' where
    g: "generate_imports registry (replicate (Count registry) zero_import) 0 e =
          ((arr', n'), e'')"
    by (metis prod.collapse)
  from assms have p: "p = (if Count registry > 0 then Some arr' else None)"
    and n: "n = Count registry" and e': "e' = e''"
    by (auto simp add: generateWasmerImports_def Let_def g)
  from generate_imports_effect [OF g] show ?thesis
    by (simp add: p n e')
qed

text \<open>
  C3 (as amended).  Every materialization of a registry, the first one and each later
  one, creates one new foreign function handle per \<open>ImportFunction\<close>: it calls
  \<open>cWasmerImportFuncNew\<close> once for each, \<open>Count\<close> times in all, whatever handles exist
  already, and the flattened records it hands to the engine carry the new handles.  A
  second materialization of the same registry creates new handles again instead of
  reusing the first ones.
\<close>

theorem materialization_creates_a_handle_per_ImportFunction:
  assumes "generateWasmerImports registry e = ((p, n), e')"
  shows "n = Count registry \<and>
         calls e' = calls e @ map new_call (import_functions registry) \<and>
         next_handle e' = next_handle e + Count registry \<and>
         import_funcs e' = import_funcs e \<union> {next_handle e..<next_handle e + Count registry} \<and>
         p = (if Count registry > 0
              then Some (new_records (import_functions registry) (next_handle e))
              else None)"
  using assms by (rule generateWasmerImports_effect)

lemma materialize_env_imports:
  "generateWasmerImports env_imports rejecting_engine =
     ((Some [cNewWasmerImportT ''env'' ''sum'' (Some 0)], 1), engine_once)"
  by (simp add: generateWasmerImports_def env_imports_def sum_import_def rejecting_engine_def
        quiet_engine_def cWasmerImportFuncNew_def log_call_def engine_once_def)

lemma materialize_env_imports_again:
  "generateWasmerImports env_imports engine_once =
     ((Some [cNewWasmerImportT ''env'' ''sum'' (Some 1)], 1), engine_twice)"
  by (simp add: generateWasmerImports_def env_imports_def sum_import_def rejecting_engine_def
        quiet_engine_def cWasmerImportFuncNew_def log_call_def
        engine_once_def engine_twice_def insert_commute)

theorem materialization_creates_a_handle_per_ImportFunction_witness:
  "generateWasmerImports env_imports engine_once =
     ((Some [cNewWasmerImportT ''env'' ''sum'' (Some 1)], 1), engine_twice) \<and>
   calls engine_twice = calls engine_once @ [new_call (''sum'', sum_import)] \<and>
   import_funcs engine_twice = {0, 1}"
proof -
  have 1: "next_handle engine_once = 1" "Count env_imports = 1"
    "import_funcs engine_once = {0}"
    "import_functions env_imports = [(''sum'', sum_import)]"
    by (simp_all add: engine_once_def env_imports_def import_functions_def)
  from materialization_creates_a_handle_per_ImportFunction [OF materialize_env_imports_again]
  have "calls engine_twice = calls engine_once @ [new_call (''sum'', sum_import)]"
    and "import_funcs engine_twice = {0, 1}"
    by (auto simp add: 1)
  then show ?thesis using materialize_env_imports_again by simp
qed

text \<open>
  The claim as stated, that a second materialization reuses the cached handle, fails
  on a registry with one import: the first materialization creates handle 0, the
  second calls \<open>cWasmerImportFuncNew\<close> again and creates handle 1, and both handles are
  live.
\<close>

theorem materialization_reuses_handle_counterexample:
  "generateWasmerImports env_imports rejecting_engine =
     ((Some [cNewWasmerImportT ''env'' ''sum'' (Some 0)], 1), engine_once) \<and>
   generateWasmerImports env_imports engine_once =
     ((Some [cNewWasmerImportT ''env'' ''sum'' (Some 1)], 1), engine_twice) \<and>
   calls engine_twice =
     calls engine_once @ [ImportFuncNew 7 (Some [WasmI32, WasmI32]) 2 (Some [WasmI32]) 1] \<and>
   import_funcs engine_twice = {0, 1}"
  using materialize_env_imports materialize_env_imports_again
  by (simp add: engine_once_def engine_twice_def)
section \<open>Instantiation failure\<close>

text \<open>
  C5.  When the engine's instantiate primitive fails (its status is not \<open>cWasmerOk\<close>),
  \<open>NewInstanceWithImports\<close> returns an \<open>InstanceError\<close> whose message is the fixed prefix
  \<open>"Failed to instantiate the module:\n    "\<close> followed by the engine's last-error
  string, or by \<open>"(unknown details)"\<close> when \<open>GetLastError\<close> returns an error.  The
  primitive is reached for every non-empty byte sequence.
\<close>

theorem NewInstanceWithImports_failure_message:
  assumes "bytes \<noteq> []"
      and "generateWasmerImports registry e =
             ((wasmImportsCPointer, numberOfImports), e1)"
      and "cWasmerInstantiate bytes (of_nat (length bytes)) wasmImportsCPointer
             (of_nat numberOfImports) e1 = ((c_instance, False), e2)"
      and "GetLastError e2 = (lastError, err)"
  shows "NewInstanceWithImports bytes (Some registry) e =
           (Inr (\<lparr>instance = None, imports = None, Exports = None, Memory = None\<rparr>,
                 Some (InstanceError
                   (''Failed to instantiate the module:\<newline>    '' @
                      (if err = None then lastError else ''(unknown details)'')))),
            e2)"
  using assms by (simp add: NewInstanceWithImports_def)

theorem NewInstanceWithImports_failure_message_witness:
  "NewInstanceWithImports [0] (Some NewImports) (quiet_engine (\<lambda>c. Inl (''bad magic'', None))) =
     (Inr (\<lparr>instance = None, imports = None, Exports = None, Memory = None\<rparr>,
           Some (InstanceError ''Failed to instantiate the module:\<newline>    bad magic'')),
      (quiet_engine (\<lambda>c. Inl (''bad magic'', None)))
        \<lparr>calls := [Instantiate [0] 1 None 0], last_error := (''bad magic'', None)\<rparr>)"
proof -
  let ?e = "quiet_engine (\<lambda>c. Inl (''bad magic'', None))"
  let ?e2 = "?e\<lparr>calls := [Instantiate [0] 1 None 0], last_error := (''bad magic'', None)\<rparr>"
  have g: "generateWasmerImports NewImports ?e = ((None, 0), ?e)"
    by (simp add: generateWasmerImports_def NewImports_def)
  have i: "cWasmerInstantiate [0] (of_nat (length [0::byte])) None (of_nat 0) ?e =
             ((None, False), ?e2)"
    by (simp add: cWasmerInstantiate_def instantiate_def log_call_def quiet_engine_def)
  have l: "GetLastError ?e2 = (''bad magic'', None)"
    by (simp add: GetLastError_def)
  have b: "[0::byte] \<noteq> []" by simp
  show ?thesis
    using NewInstanceWithImports_failure_message [OF b g i l] by simp
qed

text \<open>
  C10.  When an instantiate operation (plain, metered, or via an import object) fails
  at the engine primitive, the instance returned alongside the error is the empty
  instance: its engine handle, its imports, its \<open>Exports\<close> map and its \<open>Memory\<close> are all
  \<open>nil\<close>.
\<close>

theorem failed_instantiation_returns_empty_instance:
  "(bytes \<noteq> [] \<longrightarrow>
      generateWasmerImports registry e = ((p, n), e1) \<longrightarrow>
      cWasmerInstantiate bytes (of_nat (length bytes)) p (of_nat n) e1 = ((c, False), e2) \<longrightarrow>
      (\<exists>i err. fst (NewInstanceWithImports bytes (Some registry) e) = Inr (i, Some err) \<and>
         is_empty_instance i))
   \<and> (bytes \<noteq> [] \<longrightarrow>
      generateWasmerImports registry e = ((p, n), e1) \<longrightarrow>
      cWasmerInstantiateWithMetering bytes (of_nat (length bytes)) p (of_nat n)
        gasLimit opcode_costs e1 = ((c, False), e2) \<longrightarrow>
      (\<exists>i err. fst (NewMeteredInstanceWithImports bytes (Some registry) gasLimit opcode_costs e) =
         Inr (i, Some err) \<and> is_empty_instance i))
   \<and> (bytes \<noteq> [] \<longrightarrow>
      cWasmerInstantiateWithMeteringAndImportObject bytes (of_nat (length bytes))
        (c_import_object object) gasLimit opcode_costs e = ((c, False), e2) \<longrightarrow>
      (\<exists>i err. fst (NewMeteredInstanceWithImportObject bytes (Some object) gasLimit
                       opcode_costs e) = Inr (i, Some err) \<and> is_empty_instance i))"
  by (simp add: NewInstanceWithImports_def NewMeteredInstanceWithImports_def
        NewMeteredInstanceWithImportObject_def is_empty_instance_def Let_def
        split: prod.splits)

theorem failed_instantiation_returns_empty_instance_witness:
  "is_empty_instance (fst (projr (fst (NewInstanceWithImports [0] (Some env_imports) rejecting_engine))))
   \<and> snd (projr (fst (NewInstanceWithImports [0] (Some env_imports) rejecting_engine))) \<noteq> None
   \<and> is_empty_instance (fst (projr (fst (NewMeteredInstanceWithImports [0] (Some env_imports) 1000 unit_costs rejecting_engine))))
   \<and> is_empty_instance (fst (projr (fst (NewMeteredInstanceWithImportObject [0]
         (Some \<lparr>ImportObject.imports = Some env_imports, c_import_object = Some 5\<rparr>) 1000 unit_costs rejecting_engine))))"
proof -
  let ?p = "Some [cNewWasmerImportT ''env'' ''sum'' (Some 0)]"
  let ?object = "\<lparr>ImportObject.imports = Some env_imports, c_import_object = Some 5\<rparr>"
  have b: "[0::byte] \<noteq> []" by simp
  have i1: "cWasmerInstantiate [0] (of_nat (length [0::byte])) ?p (of_nat 1) engine_once =
              ((None, False), engine_once\<lparr>calls := calls engine_once @ [Instantiate [0] 1 ?p 1],
                 last_error := (''bad magic'', None)\<rparr>)"
    by (simp add: cWasmerInstantiate_def instantiate_def log_call_def engine_once_def
          rejecting_engine_def quiet_engine_def)
  have i2: "cWasmerInstantiateWithMetering [0] (of_nat (length [0::byte])) ?p (of_nat 1) 1000 unit_costs engine_once =
              ((None, False), engine_once\<lparr>calls := calls engine_once @ [InstantiateWithMetering [0] 1 ?p 1 1000 unit_costs],
                 last_error := (''bad magic'', None)\<rparr>)"
    by (simp add: cWasmerInstantiateWithMetering_def instantiate_def log_call_def
          engine_once_def rejecting_engine_def quiet_engine_def)
  have i3: "cWasmerInstantiateWithMeteringAndImportObject [0] (of_nat (length [0::byte]))
              (c_import_object ?object) 1000 unit_costs rejecting_engine =
              ((None, False), rejecting_engine\<lparr>calls :=
                   [InstantiateWithMeteringAndImportObject [0] 1 (Some 5) 1000 unit_costs],
                 last_error := (''bad magic'', None)\<rparr>)"
    by (simp add: cWasmerInstantiateWithMeteringAndImportObject_def instantiate_def log_call_def
          rejecting_engine_def quiet_engine_def)
  note t = failed_instantiation_returns_empty_instance
  from t [where bytes = "[0]" and registry = env_imports and e = rejecting_engine,
          THEN conjunct1, rule_format,
          OF b materialize_env_imports i1]
  have "is_empty_instance (fst (projr (fst (NewInstanceWithImports [0] (Some env_imports) rejecting_engine))))
     \<and> snd (projr (fst (NewInstanceWithImports [0] (Some env_imports) rejecting_engine))) \<noteq> None"
    by auto
  moreover from t [where bytes = "[0]" and registry = env_imports and e = rejecting_engine
          and gasLimit = 1000 and opcode_costs = unit_costs,
          THEN conjunct2, THEN conjunct1, rule_format,
          OF b materialize_env_imports i2]
  have "is_empty_instance (fst (projr (fst (NewMeteredInstanceWithImports [0] (Some env_imports) 1000 unit_costs rejecting_engine))))"
    by auto
  moreover from t [where bytes = "[0]" and e = rejecting_engine and gasLimit = 1000
          and opcode_costs = unit_costs and object = "?object",
          THEN conjunct2, THEN conjunct2, rule_format,
          OF b i3]
  have "is_empty_instance (fst (projr (fst (NewMeteredInstanceWithImportObject [0]
         (Some ?object) 1000 unit_costs rejecting_engine))))"
    by auto
  ultimately show ?thesis by blast
qed

section \<open>Instantiation without imports\<close>

text \<open>
  C9.  \<open>NewInstance(bytes)\<close> returns the same result, and leaves the engine in the same
  state, as \<open>NewInstanceWithImports(bytes, NewImports())\<close>: instantiation with no imports
  is the empty-imports case of instantiation with imports.
\<close>

theorem NewInstance_eq_NewInstanceWithImports_NewImports:
  "NewInstance bytes e = NewInstanceWithImports bytes (Some NewImports) e"
  by (simp add: NewInstance_def)

section \<open>Walking the export table, one iteration at a time\<close>

lemma retrieveExportedMemory_loop_done:
  "\<not> n < m \<Longrightarrow> retrieveExportedMemory_loop xs m n memory hasMemory e = (Inr (memory, hasMemory), e)"
  by (subst retrieveExportedMemory_loop.simps) simp

lemma retrieveExportedMemory_loop_step:
  "n < m \<Longrightarrow>
   retrieveExportedMemory_loop xs m n memory hasMemory e =
     (let e2 = log_call (ExportKind n) (log_call (ExportsGet n) e)
      in if export_kind (xs ! n) = cWasmMemory then
           (case export_memory (xs ! n) of
              None \<Rightarrow> (Inl (InstanceError ''Failed to extract the exported memory.''),
                        log_call (ExportToMemory n) e2)
            | Some h \<Rightarrow>
                retrieveExportedMemory_loop xs m (Suc n) (newMemory (Some h)) True
                  (log_call (ExportToMemory n) e2))
         else retrieveExportedMemory_loop xs m (Suc n) memory hasMemory e2)"
  by (subst retrieveExportedMemory_loop.simps)
     (simp add: cWasmerExportsGet_def cWasmerExportKind_def cWasmerExportToMemory_def Let_def
        split: option.splits)

lemma retrieveExportedMemory_loop_result:
  "n \<le> length xs \<Longrightarrow>
   retrieveExportedMemory_loop xs (length xs) n memory hasMemory e = (Inr (memory', hasMemory'), e') \<Longrightarrow>
   (hasMemory' \<longleftrightarrow> hasMemory \<or> memory_exports (drop n xs) \<noteq> []) \<and>
   memory' = (if memory_exports (drop n xs) = [] then memory
              else newMemory (export_memory (last (memory_exports (drop n xs))))) \<and>
   (\<forall>x \<in> set (memory_exports (drop n xs)). export_memory x \<noteq> None)"
proof (induction k \<equiv> "length xs - n" arbitrary: n memory hasMemory e)
  case 0
  then show ?case by (simp add: retrieveExportedMemory_loop_done memory_exports_def)
next
  case (Suc k)
  then have lt: "n < length xs" by simp
  have d: "drop n xs = xs ! n # drop (Suc n) xs"
    using lt by (simp add: Cons_nth_drop_Suc)
  have k: "k = length xs - Suc n" using Suc.hyps(2) by simp
  have le: "Suc n \<le> length xs" using lt by simp
  show ?case
  proof (cases "export_kind (xs ! n) = cWasmMemory")
    case False
    with Suc.prems(2) lt
    have "retrieveExportedMemory_loop xs (length xs) (Suc n) memory hasMemory
            (log_call (ExportKind n) (log_call (ExportsGet n) e)) = (Inr (memory', hasMemory'), e')"
      by (simp add: retrieveExportedMemory_loop_step Let_def)
    from Suc.hyps(1) [OF k le this] False show ?thesis
      by (simp add: d memory_exports_def)
  next
    case True
    with Suc.prems(2) lt obtain h where h: "export_memory (xs ! n) = Some h"
      and r: "retrieveExportedMemory_loop xs (length xs) (Suc n) (newMemory (Some h)) True
            (log_call (ExportToMemory n) (log_call (ExportKind n) (log_call (ExportsGet n) e))) =
              (Inr (memory', hasMemory'), e')"
      by (auto simp add: retrieveExportedMemory_loop_step Let_def split: option.splits)
    from Suc.hyps(1) [OF k le r] True h show ?thesis
      by (simp add: d memory_exports_def)
  qed
qed

lemma retrieveExportedFunctions_loop_done:
  "\<not> n < m \<Longrightarrow> retrieveExportedFunctions_loop c xs m n exports e = (Inr exports, e)"
  by (subst retrieveExportedFunctions_loop.simps) simp

lemma retrieveExportedFunctions_loop_step:
  "n < m \<Longrightarrow>
   retrieveExportedFunctions_loop c xs m n exports e =
     (let e2 = log_call (ExportKind n) (log_call (ExportsGet n) e)
      in if export_kind (xs ! n) \<noteq> cWasmFunction then
           retrieveExportedFunctions_loop c xs m (Suc n) exports e2
         else
           (let e4 = log_call (ExportToFunc n) (log_call (ExportName n) e2)
            in case createExportedFunctionWrapper c (xs ! n) (export_name (xs ! n)) of
                 Inl err \<Rightarrow> (Inl err, e4)
               | Inr w \<Rightarrow>
                   retrieveExportedFunctions_loop c xs m (Suc n)
                     (exports(export_name (xs ! n) \<mapsto> w)) e4))"
  by (subst retrieveExportedFunctions_loop.simps)
     (simp add: cWasmerExportsGet_def cWasmerExportKind_def cWasmerExportName_def
        cWasmerExportToFunc_def Let_def)

section \<open>Memory presence\<close>

lemma retrieveExportedMemory_result:
  assumes "retrieveExportedMemory xs e = (Inr (memory, hasMemory), e')"
  shows "(hasMemory \<longleftrightarrow> memory_exports xs \<noteq> []) \<and>
         (memory_exports xs \<noteq> [] \<longrightarrow>
            memory = newMemory (export_memory (last (memory_exports xs))) \<and>
            export_memory (last (memory_exports xs)) \<noteq> None)"
proof -
  from assms have
    "retrieveExportedMemory_loop xs (length xs) 0 (newMemory None) False (log_call ExportsLen e) =
       (Inr (memory, hasMemory), e')"
    by (simp add: retrieveExportedMemory_def cWasmerExportsLen_def)
  from retrieveExportedMemory_loop_result [OF _ this]
  have a: "hasMemory \<longleftrightarrow> memory_exports xs \<noteq> []"
    and b: "memory = (if memory_exports xs = [] then newMemory None
              else newMemory (export_memory (last (memory_exports xs))))"
    and c: "\<forall>x \<in> set (memory_exports xs). export_memory x \<noteq> None"
    by simp_all
  show ?thesis using a b c last_in_set [of "memory_exports xs"] by auto
qed

text \<open>
  C7.  For every instance that the shared post-instantiation step constructs without
  error, \<open>HasMemory\<close> is true if and only if the export table of the engine instance
  contains at least one memory export, and then \<open>Memory\<close> wraps the handle of the last
  memory export in the table's order.
\<close>

theorem HasMemory_iff_memory_exported:
  assumes "newInstanceWithImports c_instance imports' e = ((i, None), e')"
      and "wasmExports = fst (cWasmerInstanceExports c_instance e)"
  shows "(HasMemory i \<longleftrightarrow> (\<exists>x \<in> set wasmExports. export_kind x = cWasmMemory)) \<and>
         (HasMemory i \<longrightarrow>
            Memory i = Some (newMemory (export_memory (last (memory_exports wasmExports)))) \<and>
            export_memory (last (memory_exports wasmExports)) \<noteq> None)"
proof -
  from assms obtain exports e2 memory hasMemory e3 where
    m: "retrieveExportedMemory wasmExports e2 = (Inr (memory, hasMemory), e3)"
    and i: "i = \<lparr>instance = c_instance, imports = imports', Exports = Some exports,
                 Memory = (if hasMemory then Some memory else None)\<rparr>"
    by (auto simp add: newInstanceWithImports_def Let_def
          split: prod.splits sum.splits if_splits)
  have e: "(\<exists>x \<in> set wasmExports. export_kind x = cWasmMemory) \<longleftrightarrow> memory_exports wasmExports \<noteq> []"
    by (auto simp add: memory_exports_def filter_empty_conv)
  from retrieveExportedMemory_result [OF m] i e show ?thesis
    by (auto simp add: HasMemory_def)
qed

lemma two_memories_ok:
  "snd (fst (newInstanceWithImports (Some 0) (Some NewImports) (engine_with_instance two_memories))) = None"
  by (simp add: newInstanceWithImports_def retrieveExportedFunctions_def
        retrieveExportedMemory_def cWasmerInstanceExports_def cWasmerExportsLen_def
        engine_with_instance_def two_memories_def function_export_def memory_export_def
        retrieveExportedFunctions_loop_step retrieveExportedFunctions_loop_done
        retrieveExportedMemory_loop_step retrieveExportedMemory_loop_done
        createExportedFunctionWrapper_def getExportedFunctionSignature_def
        getExportedFunctionOutputArity_def Let_def)

theorem HasMemory_iff_memory_exported_witness:
  "HasMemory (fst (fst (newInstanceWithImports (Some 0) (Some NewImports)
      (engine_with_instance two_memories)))) \<and>
   Memory (fst (fst (newInstanceWithImports (Some 0) (Some NewImports)
      (engine_with_instance two_memories)))) = Some (newMemory (Some 101))"
proof -
  let ?R = "newInstanceWithImports (Some 0) (Some NewImports) (engine_with_instance two_memories)"
  have "snd (fst ?R) = None" by (rule two_memories_ok)
  then have r: "?R = ((fst (fst ?R), None), snd ?R)"
    by (metis prod.collapse)
  have t: "two_memories = fst (cWasmerInstanceExports (Some 0) (engine_with_instance two_memories))"
    by (simp add: cWasmerInstanceExports_def engine_with_instance_def)
  have m: "memory_exports two_memories =
             [memory_export ''memory'' (Some 100), memory_export ''other'' (Some 101)]"
    by (simp add: memory_exports_def two_memories_def function_export_def memory_export_def)
  have x: "\<exists>x \<in> set two_memories. export_kind x = cWasmMemory"
    by (simp add: two_memories_def function_export_def memory_export_def)
  from HasMemory_iff_memory_exported [OF r t] x m show ?thesis
    by (simp add: memory_export_def)
qed

section \<open>The calls of the post-instantiation step\<close>

lemma retrieveExportedMemory_loop_calls:
  "n \<le> length xs \<Longrightarrow>
   retrieveExportedMemory_loop xs (length xs) n memory hasMemory e = (Inr r, e') \<Longrightarrow>
   calls e' = calls e @ concat (map (memory_walk_at xs) [n..<length xs])"
proof (induction k \<equiv> "length xs - n" arbitrary: n memory hasMemory e)
  case 0
  then show ?case by (simp add: retrieveExportedMemory_loop_done)
next
  case (Suc k)
  then have lt: "n < length xs" by simp
  have u: "[n..<length xs] = n # [Suc n..<length xs]"
    using lt by (simp add: upt_conv_Cons)
  have k: "k = length xs - Suc n" using Suc.hyps(2) by simp
  have le: "Suc n \<le> length xs" using lt by simp
  show ?case
  proof (cases "export_kind (xs ! n) = cWasmMemory")
    case False
    with Suc.prems(2) lt
    have "retrieveExportedMemory_loop xs (length xs) (Suc n) memory hasMemory
            (log_call (ExportKind n) (log_call (ExportsGet n) e)) = (Inr r, e')"
      by (simp add: retrieveExportedMemory_loop_step Let_def)
    from Suc.hyps(1) [OF k le this] False show ?thesis
      by (simp add: u memory_walk_at_def)
  next
    case True
    with Suc.prems(2) lt obtain h where
      r: "retrieveExportedMemory_loop xs (length xs) (Suc n) (newMemory (Some h)) True
            (log_call (ExportToMemory n) (log_call (ExportKind n) (log_call (ExportsGet n) e))) =
              (Inr r, e')"
      by (auto simp add: retrieveExportedMemory_loop_step Let_def split: option.splits)
    from Suc.hyps(1) [OF k le r] True show ?thesis
      by (simp add: u memory_walk_at_def)
  qed
qed

lemma retrieveExportedFunctions_loop_calls:
  "n \<le> length xs \<Longrightarrow>
   retrieveExportedFunctions_loop c xs (length xs) n exports e = (Inr r, e') \<Longrightarrow>
   calls e' = calls e @ concat (map (functions_walk_at xs) [n..<length xs])"
proof (induction k \<equiv> "length xs - n" arbitrary: n exports e)
  case 0
  then show ?case by (simp add: retrieveExportedFunctions_loop_done)
next
  case (Suc k)
  then have lt: "n < length xs" by simp
  have u: "[n..<length xs] = n # [Suc n..<length xs]"
    using lt by (simp add: upt_conv_Cons)
  have k: "k = length xs - Suc n" using Suc.hyps(2) by simp
  have le: "Suc n \<le> length xs" using lt by simp
  show ?case
  proof (cases "export_kind (xs ! n) = cWasmFunction")
    case False
    with Suc.prems(2) lt
    have "retrieveExportedFunctions_loop c xs (length xs) (Suc n) exports
            (log_call (ExportKind n) (log_call (ExportsGet n) e)) = (Inr r, e')"
      by (simp add: retrieveExportedFunctions_loop_step Let_def)
    from Suc.hyps(1) [OF k le this] False show ?thesis
      by (simp add: u functions_walk_at_def)
  next
    case True
    with Suc.prems(2) lt obtain w where
      r: "retrieveExportedFunctions_loop c xs (length xs) (Suc n)
            (exports(export_name (xs ! n) \<mapsto> w))
            (log_call (ExportToFunc n) (log_call (ExportName n)
               (log_call (ExportKind n) (log_call (ExportsGet n) e)))) = (Inr r, e')"
      by (auto simp add: retrieveExportedFunctions_loop_step Let_def split: sum.splits)
    from Suc.hyps(1) [OF k le r] True show ?thesis
      by (simp add: u functions_walk_at_def)
  qed
qed

lemma visited_append: "visited (cs @ ds) = visited cs @ visited ds"
  by (induction cs rule: visited.induct) simp_all

lemma retrievals_append: "retrievals (cs @ ds) = retrievals cs + retrievals ds"
  by (induction cs rule: retrievals.induct) simp_all

lemma visited_concat_walk:
  "(\<And>n. visited (f n) = [n]) \<Longrightarrow> visited (concat (map f ns)) = ns"
  by (induction ns) (simp_all add: visited_append)

lemma retrievals_concat_walk:
  "(\<And>n. retrievals (f n) = 0) \<Longrightarrow> retrievals (concat (map f ns)) = 0"
  by (induction ns) (simp_all add: retrievals_append)

lemma visited_functions_walk: "visited (functions_walk xs) = [0..<length xs]"
  by (simp add: functions_walk_def visited_concat_walk functions_walk_at_def)

lemma visited_memory_walk: "visited (memory_walk xs) = [0..<length xs]"
  by (simp add: memory_walk_def visited_concat_walk memory_walk_at_def)

lemma retrievals_functions_walk: "retrievals (functions_walk xs) = 0"
  by (simp add: functions_walk_def retrievals_concat_walk functions_walk_at_def)

lemma retrievals_memory_walk: "retrievals (memory_walk xs) = 0"
  by (simp add: memory_walk_def retrievals_concat_walk memory_walk_at_def)

lemma retrieveExportedFunctions_loop_result:
  "n \<le> length xs \<Longrightarrow>
   retrieveExportedFunctions_loop c xs (length xs) n exports e = (Inr r, e') \<Longrightarrow>
   r = callable_map c (drop n xs) exports \<and>
   dom r = dom exports \<union> export_name ` set (function_exports (drop n xs))"
proof (induction k \<equiv> "length xs - n" arbitrary: n exports e)
  case 0
  then show ?case by (simp add: retrieveExportedFunctions_loop_done function_exports_def)
next
  case (Suc k)
  then have lt: "n < length xs" by simp
  have d: "drop n xs = xs ! n # drop (Suc n) xs"
    using lt by (simp add: Cons_nth_drop_Suc)
  have k: "k = length xs - Suc n" using Suc.hyps(2) by simp
  have le: "Suc n \<le> length xs" using lt by simp
  show ?case
  proof (cases "export_kind (xs ! n) = cWasmFunction")
    case False
    with Suc.prems(2) lt
    have "retrieveExportedFunctions_loop c xs (length xs) (Suc n) exports
            (log_call (ExportKind n) (log_call (ExportsGet n) e)) = (Inr r, e')"
      by (simp add: retrieveExportedFunctions_loop_step Let_def)
    from Suc.hyps(1) [OF k le this] False show ?thesis
      by (auto simp add: d function_exports_def)
  next
    case True
    with Suc.prems(2) lt obtain w where
      w: "createExportedFunctionWrapper c (xs ! n) (export_name (xs ! n)) = Inr w"
      and r: "retrieveExportedFunctions_loop c xs (length xs) (Suc n)
            (exports(export_name (xs ! n) \<mapsto> w))
            (log_call (ExportToFunc n) (log_call (ExportName n)
               (log_call (ExportKind n) (log_call (ExportsGet n) e)))) = (Inr r, e')"
      by (auto simp add: retrieveExportedFunctions_loop_step Let_def split: sum.splits)
    from Suc.hyps(1) [OF k le r] True w show ?thesis
      by (auto simp add: d function_exports_def)
  qed
qed

lemma retrieveExportedFunctions_result:
  assumes "retrieveExportedFunctions c xs e = (Inr r, e')"
  shows "r = callable_map c xs Map.empty \<and>
         dom r = export_name ` set (function_exports xs) \<and>
         calls e' = calls e @ functions_walk xs"
proof -
  from assms have l:
    "retrieveExportedFunctions_loop c xs (length xs) 0 Map.empty (log_call ExportsLen e) =
       (Inr r, e')"
    by (simp add: retrieveExportedFunctions_def cWasmerExportsLen_def)
  from retrieveExportedFunctions_loop_result [OF _ l]
       retrieveExportedFunctions_loop_calls [OF _ l]
  show ?thesis by (auto simp add: functions_walk_def)
qed

lemma retrieveExportedMemory_calls:
  assumes "retrieveExportedMemory xs e = (Inr r, e')"
  shows "calls e' = calls e @ memory_walk xs"
proof -
  from assms have l:
    "retrieveExportedMemory_loop xs (length xs) 0 (newMemory None) False (log_call ExportsLen e) =
       (Inr r, e')"
    by (simp add: retrieveExportedMemory_def cWasmerExportsLen_def)
  from retrieveExportedMemory_loop_calls [OF _ l] show ?thesis
    by (simp add: memory_walk_def)
qed

text \<open>
  The two walks of a post-instantiation step that succeeds, each with what it returns
  and what it adds to the log.
\<close>

lemma newInstanceWithImports_walks:
  assumes "newInstanceWithImports c_instance imports' e = ((i, None), e')"
      and "wasmExports = fst (cWasmerInstanceExports c_instance e)"
  shows "\<exists>e1 e2 memory hasMemory.
           retrieveExportedFunctions c_instance wasmExports
               (log_call (InstanceExports c_instance) e) =
             (Inr (callable_map c_instance wasmExports Map.empty), e1) \<and>
           calls e1 = calls e @ [InstanceExports c_instance] @ functions_walk wasmExports \<and>
           Exports i = Some (callable_map c_instance wasmExports Map.empty) \<and>
           retrieveExportedMemory wasmExports e1 = (Inr (memory, hasMemory), e2) \<and>
           calls e2 = calls e1 @ memory_walk wasmExports \<and>
           Memory i = (if hasMemory then Some memory else None) \<and>
           calls e' = calls e2 @ [ExportsDestroy]"
proof -
  let ?e0 = "log_call (InstanceExports c_instance) e"
  from assms obtain exports e1 memory hasMemory e2 where
    f: "retrieveExportedFunctions c_instance wasmExports ?e0 = (Inr exports, e1)"
    and m: "retrieveExportedMemory wasmExports e1 = (Inr (memory, hasMemory), e2)"
    and e': "e' = cWasmerExportsDestroy wasmExports e2"
    and i: "Exports i = Some exports" "Memory i = (if hasMemory then Some memory else None)"
    by (auto simp add: newInstanceWithImports_def cWasmerInstanceExports_def Let_def
          split: prod.splits sum.splits if_splits)
  from retrieveExportedFunctions_result [OF f]
  have x: "exports = callable_map c_instance wasmExports Map.empty"
    and c1: "calls e1 = calls e @ [InstanceExports c_instance] @ functions_walk wasmExports"
    by simp_all
  from retrieveExportedMemory_calls [OF m]
  have c2: "calls e2 = calls e1 @ memory_walk wasmExports" .
  have c3: "calls e' = calls e2 @ [ExportsDestroy]"
    by (simp add: e' cWasmerExportsDestroy_def)
  from f m i c1 c2 c3 show ?thesis
    unfolding x by blast
qed

lemma newInstanceWithImports_calls:
  assumes "newInstanceWithImports c_instance imports' e = ((i, None), e')"
      and "wasmExports = fst (cWasmerInstanceExports c_instance e)"
  shows "calls e' =
           calls e @ [InstanceExports c_instance] @ functions_walk wasmExports @
             memory_walk wasmExports @ [ExportsDestroy]"
  using newInstanceWithImports_walks [OF assms] by auto

lemma newInstanceWithImports_products:
  assumes "newInstanceWithImports c_instance imports' e = ((i, None), e')"
      and "wasmExports = fst (cWasmerInstanceExports c_instance e)"
  shows "Exports i = Some (callable_map c_instance wasmExports Map.empty) \<and>
         dom (callable_map c_instance wasmExports Map.empty) =
           export_name ` set (function_exports wasmExports) \<and>
         Memory i =
           (if memory_exports wasmExports = [] then None
            else Some (newMemory (export_memory (last (memory_exports wasmExports)))))"
proof -
  from newInstanceWithImports_walks [OF assms] obtain e1 e2 memory hasMemory where
    f: "retrieveExportedFunctions c_instance wasmExports
          (log_call (InstanceExports c_instance) e) =
        (Inr (callable_map c_instance wasmExports Map.empty), e1)"
    and x: "Exports i = Some (callable_map c_instance wasmExports Map.empty)"
    and m: "retrieveExportedMemory wasmExports e1 = (Inr (memory, hasMemory), e2)"
    and y: "Memory i = (if hasMemory then Some memory else None)"
    by blast
  from retrieveExportedFunctions_result [OF f]
  have d: "dom (callable_map c_instance wasmExports Map.empty) =
             export_name ` set (function_exports wasmExports)"
    by simp
  from retrieveExportedMemory_result [OF m] y
  have "Memory i =
           (if memory_exports wasmExports = [] then None
            else Some (newMemory (export_memory (last (memory_exports wasmExports)))))"
    by auto
  with x d show ?thesis by simp
qed

text \<open>
  C4 (as amended).  During a post-instantiation step that succeeds, the engine's export
  table is retrieved once and walked twice, each time in the engine's reported order
  \<open>0, ..., n - 1\<close>.  The first walk is \<open>retrieveExportedFunctions\<close>: it returns the
  name-indexed callable map, which becomes \<open>Exports\<close> and holds the wrapper of each
  function export under the export's name.  The second walk is \<open>retrieveExportedMemory\<close>:
  it returns the optional memory wrapper, which becomes \<open>Memory\<close> and wraps the last
  memory export, if there is one.
\<close>

theorem export_table_retrieved_once_walked_twice:
  assumes "newInstanceWithImports c_instance imports' e = ((i, None), e')"
      and "wasmExports = fst (cWasmerInstanceExports c_instance e)"
  shows "calls e' =
           calls e @ [InstanceExports c_instance] @ functions_walk wasmExports @
             memory_walk wasmExports @ [ExportsDestroy] \<and>
         retrievals (drop (length (calls e)) (calls e')) = 1 \<and>
         visited (functions_walk wasmExports) = [0..<length wasmExports] \<and>
         visited (memory_walk wasmExports) = [0..<length wasmExports] \<and>
         visited (drop (length (calls e)) (calls e')) =
           [0..<length wasmExports] @ [0..<length wasmExports] \<and>
         (\<exists>e1 e2 memory hasMemory.
            retrieveExportedFunctions c_instance wasmExports
                (log_call (InstanceExports c_instance) e) =
              (Inr (callable_map c_instance wasmExports Map.empty), e1) \<and>
            calls e1 = calls e @ [InstanceExports c_instance] @ functions_walk wasmExports \<and>
            Exports i = Some (callable_map c_instance wasmExports Map.empty) \<and>
            retrieveExportedMemory wasmExports e1 = (Inr (memory, hasMemory), e2) \<and>
            calls e2 = calls e1 @ memory_walk wasmExports \<and>
            Memory i = (if hasMemory then Some memory else None) \<and>
            calls e' = calls e2 @ [ExportsDestroy]) \<and>
         Exports i = Some (callable_map c_instance wasmExports Map.empty) \<and>
         dom (callable_map c_instance wasmExports Map.empty) =
           export_name ` set (function_exports wasmExports) \<and>
         Memory i =
           (if memory_exports wasmExports = [] then None
            else Some (newMemory (export_memory (last (memory_exports wasmExports)))))"
proof -
  have "calls e' =
           calls e @ [InstanceExports c_instance] @ functions_walk wasmExports @
             memory_walk wasmExports @ [ExportsDestroy]"
    by (rule newInstanceWithImports_calls [OF assms])
  then have log: "calls e' =
           calls e @ [InstanceExports c_instance] @ functions_walk wasmExports @
             memory_walk wasmExports @ [ExportsDestroy] \<and>
         retrievals (drop (length (calls e)) (calls e')) = 1 \<and>
         visited (functions_walk wasmExports) = [0..<length wasmExports] \<and>
         visited (memory_walk wasmExports) = [0..<length wasmExports] \<and>
         visited (drop (length (calls e)) (calls e')) =
           [0..<length wasmExports] @ [0..<length wasmExports]"
    by (simp add: visited_append retrievals_append visited_functions_walk visited_memory_walk
          retrievals_functions_walk retrievals_memory_walk)
  from log newInstanceWithImports_walks [OF assms] newInstanceWithImports_products [OF assms]
  show ?thesis by blast
qed

lemma two_memories_result:
  "newInstanceWithImports (Some 0) (Some NewImports) (engine_with_instance two_memories) =
     ((fst (fst (newInstanceWithImports (Some 0) (Some NewImports)
                   (engine_with_instance two_memories))), None),
      snd (newInstanceWithImports (Some 0) (Some NewImports) (engine_with_instance two_memories)))"
  using two_memories_ok by (metis prod.collapse)

lemma two_memories_table:
  "two_memories = fst (cWasmerInstanceExports (Some 0) (engine_with_instance two_memories))"
  by (simp add: cWasmerInstanceExports_def engine_with_instance_def)

lemma upt_two_memories: "[0..<length two_memories] = [0, 1, 2]"
  by (simp add: two_memories_def numeral_2_eq_2)

theorem export_table_retrieved_once_walked_twice_witness:
  "visited (drop (length (calls (engine_with_instance two_memories)))
     (calls (snd (newInstanceWithImports (Some 0) (Some NewImports)
                    (engine_with_instance two_memories))))) = [0, 1, 2] @ [0, 1, 2] \<and>
   retrievals (drop (length (calls (engine_with_instance two_memories)))
     (calls (snd (newInstanceWithImports (Some 0) (Some NewImports)
                    (engine_with_instance two_memories))))) = 1 \<and>
   map_option dom (Exports (fst (fst (newInstanceWithImports (Some 0) (Some NewImports)
                    (engine_with_instance two_memories))))) = Some {''add''} \<and>
   map_option (\<lambda>exports. exports ''add'')
     (Exports (fst (fst (newInstanceWithImports (Some 0) (Some NewImports)
                    (engine_with_instance two_memories))))) =
     Some (Some \<lparr>w_c_instance = Some 0, w_exportedFunctionName = ''add'',
                  w_wasmFunctionInputSignatures = [WasmI32, WasmI32],
                  w_wasmFunctionInputsArity = 2, w_wasmFunctionOutputsArity = 1\<rparr>) \<and>
   Memory (fst (fst (newInstanceWithImports (Some 0) (Some NewImports)
                    (engine_with_instance two_memories)))) = Some (newMemory (Some 101))"
proof -
  let ?i = "fst (fst (newInstanceWithImports (Some 0) (Some NewImports)
                    (engine_with_instance two_memories)))"
  note t = export_table_retrieved_once_walked_twice [OF two_memories_result two_memories_table]
  from t have v: "visited (drop (length (calls (engine_with_instance two_memories)))
     (calls (snd (newInstanceWithImports (Some 0) (Some NewImports)
                    (engine_with_instance two_memories))))) =
       [0..<length two_memories] @ [0..<length two_memories]"
    by blast
  from t have r: "retrievals (drop (length (calls (engine_with_instance two_memories)))
     (calls (snd (newInstanceWithImports (Some 0) (Some NewImports)
                    (engine_with_instance two_memories))))) = 1"
    by blast
  from t have x: "Exports ?i = Some (callable_map (Some 0) two_memories Map.empty)"
    by blast
  from t have m: "Memory ?i =
           (if memory_exports two_memories = [] then None
            else Some (newMemory (export_memory (last (memory_exports two_memories)))))"
    by blast
  have c: "callable_map (Some 0) two_memories Map.empty =
             [''add'' \<mapsto> \<lparr>w_c_instance = Some 0, w_exportedFunctionName = ''add'',
                  w_wasmFunctionInputSignatures = [WasmI32, WasmI32],
                  w_wasmFunctionInputsArity = 2, w_wasmFunctionOutputsArity = 1\<rparr>]"
    by (simp add: two_memories_def function_export_def memory_export_def
          createExportedFunctionWrapper_def getExportedFunctionSignature_def
          getExportedFunctionOutputArity_def)
  have l: "memory_exports two_memories =
             [memory_export ''memory'' (Some 100), memory_export ''other'' (Some 101)]"
    by (simp add: memory_exports_def two_memories_def function_export_def memory_export_def)
  have m': "Memory ?i = Some (newMemory (Some 101))"
    unfolding m l by (simp add: memory_export_def)
  from v r show ?thesis
    unfolding upt_two_memories x c m' by simp
qed

text \<open>
  The claim as stated, with a single walk, fails on a table of three exports: the
  indices read are \<open>0, 1, 2, 0, 1, 2\<close>.
\<close>

theorem export_table_walked_once_counterexample:
  "visited (drop (length (calls (engine_with_instance two_memories)))
     (calls (snd (newInstanceWithImports (Some 0) (Some NewImports)
                    (engine_with_instance two_memories))))) = [0, 1, 2, 0, 1, 2] \<and>
   visited (drop (length (calls (engine_with_instance two_memories)))
     (calls (snd (newInstanceWithImports (Some 0) (Some NewImports)
                    (engine_with_instance two_memories))))) \<noteq> [0..<length two_memories]"
proof -
  have "visited (drop (length (calls (engine_with_instance two_memories)))
     (calls (snd (newInstanceWithImports (Some 0) (Some NewImports)
                    (engine_with_instance two_memories))))) =
       [0..<length two_memories] @ [0..<length two_memories]"
    unfolding newInstanceWithImports_calls [OF two_memories_result two_memories_table]
    by (simp add: visited_append visited_functions_walk visited_memory_walk)
  then show ?thesis
    unfolding upt_two_memories by simp
qed

section \<open>Arity check of an exported function\<close>

text \<open>
  C6.  For the wrapper of an exported function whose declared input arity is \<open>n\<close>, a
  call with \<open>k \<noteq> n\<close> arguments returns \<open>void\<close> and the error that names the function
  and both counts, and leaves the engine as it was: no primitive of the engine is
  invoked.  This holds whatever the marshalling helpers \<open>m\<close> do.
\<close>

theorem wrapper_call_arity_mismatch:
  assumes "createExportedFunctionWrapper c_instance wasmFunction exportedFunctionName = Inr w"
      and "getExportedFunctionSignature wasmFunction exportedFunctionName = Inr (signatures, n)"
      and "length arguments \<noteq> n"
  shows "wrapper_call m w arguments e =
           ((void, Some (ArityError exportedFunctionName n (length arguments))), e)"
  using assms
  by (auto simp add: createExportedFunctionWrapper_def wrapper_call_def
        validateGivenArguments_def split: sum.splits)

theorem wrapper_call_arity_mismatch_witness:
  "wrapper_call no_marshalling
     \<lparr>w_c_instance = Some 0, w_exportedFunctionName = ''add'',
      w_wasmFunctionInputSignatures = [WasmI32, WasmI32],
      w_wasmFunctionInputsArity = 2, w_wasmFunctionOutputsArity = 1\<rparr>
     [3] (engine_with_instance two_memories) =
   ((void, Some (ArityError ''add'' 2 1)), engine_with_instance two_memories)"
proof -
  have c: "createExportedFunctionWrapper (Some 0) (function_export ''add'') ''add'' =
             Inr \<lparr>w_c_instance = Some 0, w_exportedFunctionName = ''add'',
                  w_wasmFunctionInputSignatures = [WasmI32, WasmI32],
                  w_wasmFunctionInputsArity = 2, w_wasmFunctionOutputsArity = 1\<rparr>"
    by (simp add: createExportedFunctionWrapper_def getExportedFunctionSignature_def
          getExportedFunctionOutputArity_def function_export_def)
  have s: "getExportedFunctionSignature (function_export ''add'') ''add'' =
             Inr ([WasmI32, WasmI32], 2)"
    by (simp add: getExportedFunctionSignature_def function_export_def)
  have l: "length [3::nat] \<noteq> 2" by simp
  from wrapper_call_arity_mismatch [OF c s l] show ?thesis by simp
qed

section \<open>What the post-instantiation step changes in the engine\<close>

lemma only_calls_refl: "only_calls e e"
  unfolding only_calls_def by (rule exI [of _ "calls e"]) simp

lemma only_calls_log_call: "only_calls e e' \<Longrightarrow> only_calls e (log_call c e')"
  unfolding only_calls_def log_call_def by (elim exE) (simp, blast)

lemma retrieveExportedMemory_loop_only_calls:
  "only_calls e0 e \<Longrightarrow>
   only_calls e0 (snd (retrieveExportedMemory_loop xs m n memory hasMemory e))"
proof (induction k \<equiv> "m - n" arbitrary: n memory hasMemory e)
  case 0
  then show ?case by (simp add: retrieveExportedMemory_loop_done)
next
  case (Suc k)
  then have lt: "n < m" and k: "k = m - Suc n" by simp_all
  note ih = Suc.hyps(1) [OF k]
  show ?case
    using lt Suc.prems
    by (auto simp add: retrieveExportedMemory_loop_step Let_def only_calls_log_call
          intro!: ih split: option.splits)
qed

lemma retrieveExportedFunctions_loop_only_calls:
  "only_calls e0 e \<Longrightarrow>
   only_calls e0 (snd (retrieveExportedFunctions_loop c xs m n exports e))"
proof (induction k \<equiv> "m - n" arbitrary: n exports e)
  case 0
  then show ?case by (simp add: retrieveExportedFunctions_loop_done)
next
  case (Suc k)
  then have lt: "n < m" and k: "k = m - Suc n" by simp_all
  note ih = Suc.hyps(1) [OF k]
  show ?case
    using lt Suc.prems
    by (auto simp add: retrieveExportedFunctions_loop_step Let_def only_calls_log_call
          intro!: ih split: sum.splits)
qed

lemma newInstanceWithImports_only_calls:
  "only_calls e (snd (newInstanceWithImports c_instance imports' e))"
proof -
  let ?xs = "fst (cWasmerInstanceExports c_instance e)"
  let ?e1 = "log_call (InstanceExports c_instance) e"
  let ?f = "retrieveExportedFunctions c_instance ?xs ?e1"
  let ?m = "retrieveExportedMemory ?xs (snd ?f)"
  have 1: "only_calls e ?e1" by (simp add: only_calls_log_call only_calls_refl)
  have 2: "only_calls e (snd ?f)"
    by (simp add: retrieveExportedFunctions_def cWasmerExportsLen_def
          retrieveExportedFunctions_loop_only_calls only_calls_log_call 1)
  have 3: "only_calls e (snd ?m)"
    by (simp add: retrieveExportedMemory_def cWasmerExportsLen_def
          retrieveExportedMemory_loop_only_calls only_calls_log_call 2)
  show ?thesis
    using 2 3
    by (auto simp add: newInstanceWithImports_def cWasmerInstanceExports_def Let_def
          cWasmerExportsDestroy_def only_calls_log_call
          split: prod.splits sum.splits)
qed

lemma newInstanceWithImports_success:
  "newInstanceWithImports c_instance imports' e = ((i, None), e') \<Longrightarrow>
   instance i = c_instance \<and> imports i = imports'"
  by (auto simp add: newInstanceWithImports_def Let_def split: prod.splits sum.splits if_splits)

lemma only_calls_points_used: "only_calls e e' \<Longrightarrow> points_used e' = points_used e"
  unfolding only_calls_def by (elim exE) simp

lemma only_calls_import_funcs: "only_calls e e' \<Longrightarrow> import_funcs e' = import_funcs e"
  unfolding only_calls_def by (elim exE) simp

lemma instantiate_ok:
  "instantiate metered c e = ((c_instance, True), e2) \<Longrightarrow>
   c_instance = Some (next_handle e) \<and>
   import_funcs e2 = import_funcs e \<and>
   calls e2 = calls e @ [c] \<and>
   (metered \<longrightarrow> points_used e2 (next_handle e) = Some 0)"
  by (auto simp add: instantiate_def Let_def log_call_def split: sum.splits)

lemma newInstanceWithImports_metered:
  assumes "instantiate True c e = ((c_instance, True), e2)"
      and "newInstanceWithImports c_instance imports' e2 = ((i, None), e')"
  shows "is_metered e' i"
proof -
  from instantiate_ok [OF assms(1)]
  have c: "c_instance = Some (next_handle e)"
    and p: "points_used e2 (next_handle e) = Some 0"
    by simp_all
  from newInstanceWithImports_only_calls [of e2 c_instance imports'] assms(2)
  have "points_used e' = points_used e2"
    by (simp add: only_calls_points_used)
  with newInstanceWithImports_success [OF assms(2)] c p show ?thesis
    by (simp add: is_metered_def)
qed

lemma NewMeteredInstanceWithImports_is_metered:
  assumes "NewMeteredInstanceWithImports bytes imports' gasLimit opcode_costs e =
             (Inr (i, None), e')"
  shows "is_metered e' i"
proof -
  from assms obtain c e1 c_instance e2 registry where
    "instantiate True c e1 = ((c_instance, True), e2)"
    "newInstanceWithImports c_instance registry e2 = ((i, None), e')"
    by (auto simp add: NewMeteredInstanceWithImports_def cWasmerInstantiateWithMetering_def
          Let_def split: option.splits prod.splits if_splits)
  then show ?thesis by (rule newInstanceWithImports_metered)
qed

lemma NewMeteredInstanceWithImportObject_is_metered:
  assumes "NewMeteredInstanceWithImportObject bytes importObject gasLimit opcode_costs e =
             (Inr (i, None), e')"
  shows "is_metered e' i"
proof -
  from assms obtain c c_instance e2 registry where
    "instantiate True c e = ((c_instance, True), e2)"
    "newInstanceWithImports c_instance registry e2 = ((i, None), e')"
    by (auto simp add: NewMeteredInstanceWithImportObject_def
          cWasmerInstantiateWithMeteringAndImportObject_def
          Let_def split: option.splits prod.splits if_splits)
  then show ?thesis by (rule newInstanceWithImports_metered)
qed

section \<open>Points used\<close>

text \<open>
  C8.  For every metered instance and every 64-bit value \<open>v\<close>, \<open>SetPointsUsed(v)\<close>
  followed immediately by \<open>GetPointsUsed()\<close> returns \<open>v\<close>.  The instances that the two
  metered constructors return are metered
  (\<open>NewMeteredInstanceWithImports_is_metered\<close>,
  \<open>NewMeteredInstanceWithImportObject_is_metered\<close>).
\<close>

theorem SetPointsUsed_then_GetPointsUsed:
  assumes "is_metered e i"
  shows "fst (GetPointsUsed i (SetPointsUsed i v e)) = v"
  using assms
  by (auto simp add: is_metered_def GetPointsUsed_def SetPointsUsed_def
        cWasmerInstanceGetPointsUsed_def cWasmerInstanceSetPointsUsed_def log_call_def
        split: option.splits)

lemma NewMeteredInstanceWithImports_example:
  "snd (projr (fst (NewMeteredInstanceWithImports [0] (Some NewImports) 1000 unit_costs
     (accepting_engine two_memories)))) = None \<and>
   isl (fst (NewMeteredInstanceWithImports [0] (Some NewImports) 1000 unit_costs
     (accepting_engine two_memories))) = False"
  by (simp add: NewMeteredInstanceWithImports_def generateWasmerImports_def NewImports_def
        cWasmerInstantiateWithMetering_def instantiate_def log_call_def accepting_engine_def
        quiet_engine_def
        newInstanceWithImports_def retrieveExportedFunctions_def
        retrieveExportedMemory_def cWasmerInstanceExports_def cWasmerExportsLen_def
        two_memories_def function_export_def memory_export_def
        retrieveExportedFunctions_loop_step retrieveExportedFunctions_loop_done
        retrieveExportedMemory_loop_step retrieveExportedMemory_loop_done
        createExportedFunctionWrapper_def getExportedFunctionSignature_def
        getExportedFunctionOutputArity_def Let_def)

theorem SetPointsUsed_then_GetPointsUsed_witness:
  "fst (GetPointsUsed
     (fst (projr (fst (NewMeteredInstanceWithImports [0] (Some NewImports) 1000 unit_costs
        (accepting_engine two_memories)))))
     (SetPointsUsed
        (fst (projr (fst (NewMeteredInstanceWithImports [0] (Some NewImports) 1000 unit_costs
           (accepting_engine two_memories)))))
        42
        (snd (NewMeteredInstanceWithImports [0] (Some NewImports) 1000 unit_costs
           (accepting_engine two_memories))))) = 42"
proof -
  let ?R = "NewMeteredInstanceWithImports [0] (Some NewImports) 1000 unit_costs
              (accepting_engine two_memories)"
  from NewMeteredInstanceWithImports_example
  have "?R = (Inr (fst (projr (fst ?R)), None), snd ?R)"
    by (metis prod.collapse sum.collapse(2))
  then have "is_metered (snd ?R) (fst (projr (fst ?R)))"
    by (rule NewMeteredInstanceWithImports_is_metered)
  then show ?thesis
    by (rule SetPointsUsed_then_GetPointsUsed)
qed

section \<open>Closing an instance\<close>

lemma some_handles_append: "some_handles (hs @ ks) = some_handles hs @ some_handles ks"
  by (induction hs rule: some_handles.induct) simp_all

lemma Close_namespace_import_funcs:
  "import_funcs (Close_namespace fs e) =
     import_funcs e -
       set (some_handles (map (\<lambda>named. importedFunctionPointer (snd named)) fs))"
proof (induction fs arbitrary: e)
  case Nil
  then show ?case by simp
next
  case (Cons a fs)
  obtain importName importFunction where a: "a = (importName, importFunction)" by (cases a)
  show ?case
  proof (cases "importedFunctionPointer importFunction")
    case None
    then show ?thesis using Cons.IH [of e] by (simp add: a)
  next
    case (Some h)
    then show ?thesis
      using Cons.IH [of "cWasmerImportFuncDestroy h e"] Cons.IH [of e]
      by (auto simp add: a cWasmerImportFuncDestroy_def)
  qed
qed

lemma Close_namespace_nothing_live:
  "set (some_handles (map (\<lambda>named. importedFunctionPointer (snd named)) fs)) \<inter>
     import_funcs e = {} \<Longrightarrow>
   Close_namespace fs e = e"
proof (induction fs)
  case Nil
  then show ?case by simp
next
  case (Cons a fs)
  obtain importName importFunction where a: "a = (importName, importFunction)" by (cases a)
  from Cons show ?case
    by (cases "importedFunctionPointer importFunction") (auto simp add: a)
qed

lemma released_handles_Cons:
  "released_handles ((ns, fs) # registry) =
     some_handles (map (\<lambda>named. importedFunctionPointer (snd named)) fs) @
     released_handles registry"
  by (simp add: released_handles_def stored_handles_def import_functions_def
        some_handles_append)

lemma Imports_Close_import_funcs:
  "import_funcs (Imports_Close registry e) = import_funcs e - set (released_handles registry)"
proof (induction registry arbitrary: e)
  case Nil
  then show ?case
    by (simp add: released_handles_def stored_handles_def import_functions_def)
next
  case (Cons a registry)
  obtain ns fs where a: "a = (ns, fs)" by (cases a)
  from Cons.IH [of "Close_namespace fs e"] show ?case
    by (auto simp add: a released_handles_Cons Close_namespace_import_funcs)
qed

lemma Imports_Close_nothing_live:
  "set (released_handles registry) \<inter> import_funcs e = {} \<Longrightarrow> Imports_Close registry e = e"
proof (induction registry)
  case Nil
  then show ?case by simp
next
  case (Cons a registry)
  obtain ns fs where a: "a = (ns, fs)" by (cases a)
  from Cons.prems have
    1: "set (some_handles (map (\<lambda>named. importedFunctionPointer (snd named)) fs)) \<inter>
          import_funcs e = {}"
    and 2: "set (released_handles registry) \<inter> import_funcs e = {}"
    by (auto simp add: a released_handles_Cons)
  from Cons.IH [OF 2] show ?case
    by (simp add: a Close_namespace_nothing_live [OF 1])
qed

text \<open>
  \<open>Imports_Close\<close> is idempotent, as the spec says of \<open>close()\<close>, and it does nothing on
  a registry that stores no handle.
\<close>

lemma Imports_Close_idempotent:
  "Imports_Close registry (Imports_Close registry e) = Imports_Close registry e"
  by (rule Imports_Close_nothing_live) (auto simp add: Imports_Close_import_funcs)





lemma NewInstance_example:
  "NewInstance empty_module (accepting_engine []) =
     (Inr (plain_instance, None), engine_with_plain_instance)"
  by (simp add: NewInstance_def NewInstanceWithImports_def generateWasmerImports_def
        NewImports_def cWasmerInstantiate_def instantiate_def log_call_def
        accepting_engine_def quiet_engine_def
        newInstanceWithImports_def retrieveExportedFunctions_def retrieveExportedMemory_def
        cWasmerInstanceExports_def cWasmerExportsLen_def cWasmerExportsDestroy_def
        retrieveExportedFunctions_loop_done retrieveExportedMemory_loop_done
        plain_instance_def engine_with_plain_instance_def empty_module_def fun_upd_idem)




text \<open>
  C2 (as amended).  \<open>Close\<close> on an instance whose instance handle and imports are both
  \<open>nil\<close> releases nothing: it invokes no primitive and leaves the engine as it is, also
  when repeated.  So does \<open>Clean\<close>.
\<close>

theorem Close_of_null_handles_is_noop:
  assumes "instance i = None" and "imports i = None"
  shows "Close i e = e \<and> Close i (Close i e) = e \<and> Clean i e = e"
  using assms by (simp add: Close_def Clean_def)

theorem Close_of_null_handles_is_noop_witness:
  "Close \<lparr>instance = None, imports = None, Exports = None, Memory = None\<rparr> rejecting_engine =
     rejecting_engine"
  using Close_of_null_handles_is_noop
          [of "\<lparr>instance = None, imports = None, Exports = None, Memory = None\<rparr>" rejecting_engine]
  by simp

text \<open>
  The claim as stated, for two calls of \<open>Close\<close> in succession on a live instance, fails
  on an instance made by \<open>NewInstance\<close>: \<open>Close\<close> leaves the instance's fields as they
  are, so the second \<open>Close\<close> calls \<open>cWasmerInstanceDestroy\<close> again on the handle that the
  first one has destroyed.
\<close>

theorem Close_twice_counterexample:
  "NewInstance empty_module (accepting_engine []) =
     (Inr (plain_instance, None), engine_with_plain_instance) \<and>
   calls (Close plain_instance engine_with_plain_instance) =
     calls engine_with_plain_instance @ [InstanceDestroy 0] \<and>
   instances (Close plain_instance engine_with_plain_instance) = {} \<and>
   calls (Close plain_instance (Close plain_instance engine_with_plain_instance)) =
     calls engine_with_plain_instance @ [InstanceDestroy 0, InstanceDestroy 0] \<and>
   Close plain_instance (Close plain_instance engine_with_plain_instance) \<noteq>
     Close plain_instance engine_with_plain_instance"
proof -
  have c: "calls (Close plain_instance engine_with_plain_instance) =
     calls engine_with_plain_instance @ [InstanceDestroy 0]"
   and i: "instances (Close plain_instance engine_with_plain_instance) = {}"
   and d: "calls (Close plain_instance (Close plain_instance engine_with_plain_instance)) =
     calls engine_with_plain_instance @ [InstanceDestroy 0, InstanceDestroy 0]"
    by (simp_all add: Close_def plain_instance_def NewImports_def cWasmerInstanceDestroy_def
          engine_with_plain_instance_def)
  from c d have "calls (Close plain_instance (Close plain_instance engine_with_plain_instance)) \<noteq>
    calls (Close plain_instance engine_with_plain_instance)"
    by simp
  then have "Close plain_instance (Close plain_instance engine_with_plain_instance) \<noteq>
     Close plain_instance engine_with_plain_instance"
    by auto
  with c i d NewInstance_example show ?thesis by simp
qed

end
